theory Spec2Isabelle
  imports Complex_Main
begin

section \<open>Conventions of the embedding\<close>

text \<open>
  The C sources \<^verbatim>\<open>bessel.c\<close> and \<^verbatim>\<open>orbitalElecDensInit.c\<close> are embedded as HOL
  functions.

  \<^item> A \<^verbatim>\<open>double\<close> is a \<open>real\<close> and a \<^verbatim>\<open>double _Complex\<close> a \<open>complex\<close>: the arithmetic
    is exact, rounding is not modelled.
  \<^item> An \<^verbatim>\<open>int\<close> is an \<open>int\<close>; signed overflow is undefined in C and is not modelled.
  \<^item> A pointer field of the context object (\<^verbatim>\<open>double *electronDens\<close>, ...) is the map
    from the offset to the value stored there. C checks no bounds, and the extents
    (\<^verbatim>\<open>Nd_d\<close>, \<^verbatim>\<open>3 * n_atom\<close>, ...) are those the rest of the program allocates; distinct
    fields are distinct allocations.
  \<^item> A counting loop \<^verbatim>\<open>for (i = 0; i < n; i++) body\<close> is \<open>for_loop n body\<close>: the body is
    run for \<open>i = 0, ..., n - 1\<close> in this order, and not at all when \<open>n \<le> 0\<close>.
\<close>

type_synonym 'a array = "nat \<Rightarrow> 'a"

definition for_loop :: "int \<Rightarrow> (nat \<Rightarrow> 's \<Rightarrow> 's) \<Rightarrow> 's \<Rightarrow> 's" where
  "for_loop n body s = fold body [0..<nat n] s"


section \<open>bessel.c\<close>

text \<open>
  \<^verbatim>\<open>for (int i = n-1; i >= 0; i--) ans = ans*x + cof[i];\<close>
  The first argument of \<open>poly_loop\<close> is \<open>i + 1\<close>, the number of iterations left.
\<close>

fun poly_loop :: "real list \<Rightarrow> nat \<Rightarrow> real \<Rightarrow> real \<Rightarrow> real" where
  "poly_loop cof 0 x ans = ans"
| "poly_loop cof (Suc i) x ans = poly_loop cof i x (ans * x + cof ! i)"

text \<open>
  \<^verbatim>\<open>poly(cof, n, x)\<close>. The coefficient array is a list; reading \<^verbatim>\<open>cof[n]\<close> outside of it
  (also for a negative \<^verbatim>\<open>n\<close>) is undefined behaviour, the value \<open>None\<close>.
\<close>

definition poly :: "real list \<Rightarrow> int \<Rightarrow> real \<Rightarrow> real option" where
  "poly cof n x =
     (if 0 \<le> n \<and> nat n < length cof
      then Some (poly_loop cof (nat n) x (cof ! nat n))
      else None)"


section \<open>The context object\<close>

datatype MPI_Comm = MPI_COMM_NULL | MPI_Comm nat

text \<open>
  The fields of \<^verbatim>\<open>SPARC_OBJ\<close> that \<^verbatim>\<open>orbitalElecDensInit.c\<close> reads or writes. The
  declaration (\<^verbatim>\<open>isddft.h\<close>) is not among the sources: the types are those the uses
  fix. \<open>mvAtmConstraint\<close> enters a product of doubles only and is kept as such. An
  orbital array is \<open>None\<close> as long as its pointer holds no allocated block.
\<close>

record SPARC_OBJ =
  dmcomm_phi :: MPI_Comm
  dmcomm :: MPI_Comm
  spincomm :: MPI_Comm
  Nd_d :: int
  Nd_d_dmcomm :: int
  elecgs_Count :: int
  StressCount :: int
  MDCount :: int
  MDFlag :: int
  RelaxFlag :: int
  spin_typ :: int
  CyclixFlag :: int
  n_atom :: int
  electronDens :: "real array"
  electronDens_at :: "real array"
  delectronDens :: "real array"
  delectronDens_0dt :: "real array"
  delectronDens_1dt :: "real array"
  delectronDens_2dt :: "real array"
  mag :: "real array"
  mag_at :: "real array"
  Intgwt_phi :: "real array"
  dV :: real
  PosCharge :: real
  xc_rhotol :: real
  atom_pos :: "real array"
  atom_pos_nm :: "real array"
  atom_pos_0dt :: "real array"
  atom_pos_1dt :: "real array"
  atom_pos_2dt :: "real array"
  ion_vel :: "real array"
  MD_dt :: real
  Relax_fac :: real
  d :: "real array"
  mvAtmConstraint :: "real array"
  Nspinor_spincomm :: int
  Nband_bandcomm :: int
  Nkpts_kptcomm :: int
  Nx :: int
  Ny :: int
  Nz :: int
  Nd :: int
  Nspinor :: int
  Nstates :: int
  isGammaPoint :: int
  FixRandSeed :: int
  band_start_indx :: int
  spinor_start_indx :: int
  kpt_start_indx :: int
  DMVertices_dmcomm :: "int list"
  Xorb :: "real array option"
  Yorb :: "real array option"
  Xorb_kpt :: "complex array option"
  Yorb_kpt :: "complex array option"


section \<open>elecDensExtrapolation\<close>

text \<open>Lines 124--128: the body of the loop that shifts the deviation history.\<close>

definition shift_delectronDens :: "nat \<Rightarrow> SPARC_OBJ \<Rightarrow> SPARC_OBJ" where
  "shift_delectronDens nd s =
     (let s1 = s\<lparr>delectronDens_2dt := (delectronDens_2dt s)(nd := delectronDens_1dt s nd)\<rparr>;
          s2 = s1\<lparr>delectronDens_1dt := (delectronDens_1dt s1)(nd := delectronDens_0dt s1 nd)\<rparr>
      in s2\<lparr>delectronDens_0dt :=
              (delectronDens_0dt s2)(nd := electronDens s2 nd - electronDens_at s2 nd)\<rparr>)"

text \<open>
  Lines 130--142 and 144--156: the bodies of the two loops over the atoms. The loops
  count the atoms in \<^verbatim>\<open>atm\<close> and index the arrays with \<^verbatim>\<open>count\<close>, which the body
  increments; the loop state is the pair of \<^verbatim>\<open>count\<close> and the context object.
\<close>

definition predict_MD :: "nat \<Rightarrow> nat \<times> SPARC_OBJ \<Rightarrow> nat \<times> SPARC_OBJ" where
  "predict_MD atm = (\<lambda>(count, s).
     if MDCount s = 1 then
       (count + 1,
        s\<lparr>atom_pos_nm := (atom_pos_nm s)
             (count * 3 := atom_pos s (count * 3),
              count * 3 + 1 := atom_pos s (count * 3 + 1),
              count * 3 + 2 := atom_pos s (count * 3 + 2))\<rparr>)
     else
       (count + 1,
        s\<lparr>atom_pos_nm := (atom_pos_nm s)
             (count * 3 := atom_pos_nm s (count * 3) + MD_dt s * ion_vel s (count * 3),
              count * 3 + 1 :=
                atom_pos_nm s (count * 3 + 1) + MD_dt s * ion_vel s (count * 3 + 1),
              count * 3 + 2 :=
                atom_pos_nm s (count * 3 + 2) + MD_dt s * ion_vel s (count * 3 + 2))\<rparr>))"

definition predict_Relax :: "nat \<Rightarrow> nat \<times> SPARC_OBJ \<Rightarrow> nat \<times> SPARC_OBJ" where
  "predict_Relax atm = (\<lambda>(count, s).
     if elecgs_Count s - StressCount s = 1 then
       (count + 1,
        s\<lparr>atom_pos_nm := (atom_pos_nm s)
             (count * 3 := atom_pos s (count * 3),
              count * 3 + 1 := atom_pos s (count * 3 + 1),
              count * 3 + 2 := atom_pos s (count * 3 + 2))\<rparr>)
     else
       (count + 1,
        s\<lparr>atom_pos_nm := (atom_pos_nm s)
             (count * 3 :=
                atom_pos_nm s (count * 3)
                  + Relax_fac s * d s (count * 3) * mvAtmConstraint s (count * 3),
              count * 3 + 1 :=
                atom_pos_nm s (count * 3 + 1)
                  + Relax_fac s * d s (count * 3 + 1) * mvAtmConstraint s (count * 3 + 1),
              count * 3 + 2 :=
                atom_pos_nm s (count * 3 + 2)
                  + Relax_fac s * d s (count * 3 + 2) * mvAtmConstraint s (count * 3 + 2))\<rparr>))"

text \<open>Lines 129--157: the predicted positions, \<^verbatim>\<open>count\<close> starting at 0.\<close>

definition predict_atom_pos :: "SPARC_OBJ \<Rightarrow> SPARC_OBJ" where
  "predict_atom_pos s =
     (if MDFlag s = 1 then snd (for_loop (n_atom s) predict_MD (0, s))
      else if RelaxFlag s = 1 then snd (for_loop (n_atom s) predict_Relax (0, s))
      else s)"

text \<open>
  Lines 160--173: the matrix \<^verbatim>\<open>FtF\<close> (4 doubles) and the vector \<^verbatim>\<open>Ftf\<close> (2 doubles),
  zeroed by \<^verbatim>\<open>calloc\<close>, and the body of the loop that accumulates them.
\<close>

definition accumulate_FtF ::
  "SPARC_OBJ \<Rightarrow> nat \<Rightarrow> real array \<times> real array \<Rightarrow> real array \<times> real array" where
  "accumulate_FtF s ii = (\<lambda>(FtF, Ftf).
     let temp1 = atom_pos_0dt s ii - atom_pos_1dt s ii;
         temp2 = atom_pos_1dt s ii - atom_pos_2dt s ii;
         temp3 = atom_pos_nm s ii - atom_pos_0dt s ii;
         FtF0 = FtF(0 := FtF 0 + temp1 * temp1);
         FtF1 = FtF0(1 := FtF0 1 + temp1 * temp2);
         FtF3 = FtF1(3 := FtF1 3 + temp2 * temp2);
         Ftf0 = Ftf(0 := Ftf 0 + temp1 * temp3);
         Ftf1 = Ftf0(1 := Ftf0 1 + temp2 * temp3)
     in (FtF3, Ftf1))"

definition build_FtF :: "SPARC_OBJ \<Rightarrow> real array \<times> real array" where
  "build_FtF s =
     (let (FtF, Ftf) = for_loop (3 * n_atom s) (accumulate_FtF s) (\<lambda>_. 0, \<lambda>_. 0)
      in (FtF(2 := FtF 1), Ftf))"

text \<open>
  \<^verbatim>\<open>LAPACKE_dgelsd(LAPACK_COL_MAJOR, 2, 2, 1, FtF, 2, Ftf, 2, s, -1.0, &matrank)\<close> is a
  library routine: it is a parameter of the model, the map from \<^verbatim>\<open>FtF\<close> and \<^verbatim>\<open>Ftf\<close> to
  the contents of \<^verbatim>\<open>Ftf\<close> after the call.
\<close>

type_synonym dgelsd = "real array \<Rightarrow> real array \<Rightarrow> real array"

text \<open>Line 180: the body of the extrapolation loop.\<close>

definition extrapolate_delectronDens :: "real \<Rightarrow> real \<Rightarrow> nat \<Rightarrow> SPARC_OBJ \<Rightarrow> SPARC_OBJ" where
  "extrapolate_delectronDens alpha beta nd s =
     s\<lparr>delectronDens := (delectronDens s)
          (nd := (1 + alpha) * delectronDens_0dt s nd
                 + (beta - alpha) * delectronDens_1dt s nd
                 - beta * delectronDens_2dt s nd)\<rparr>"

text \<open>Lines 159--183.\<close>

definition extrapolate :: "dgelsd \<Rightarrow> SPARC_OBJ \<Rightarrow> SPARC_OBJ" where
  "extrapolate LAPACKE_dgelsd s =
     (let (FtF, Ftf) = build_FtF s;
          Ftf' = LAPACKE_dgelsd FtF Ftf;
          alpha = Ftf' 0;
          beta = Ftf' 1
      in for_loop (Nd_d s) (extrapolate_delectronDens alpha beta) s)"

text \<open>Lines 185--189: the body of the loop that shifts the position history.\<close>

definition shift_atom_pos :: "nat \<Rightarrow> SPARC_OBJ \<Rightarrow> SPARC_OBJ" where
  "shift_atom_pos ii s =
     (let s1 = s\<lparr>atom_pos_2dt := (atom_pos_2dt s)(ii := atom_pos_1dt s ii)\<rparr>;
          s2 = s1\<lparr>atom_pos_1dt := (atom_pos_1dt s1)(ii := atom_pos_0dt s1 ii)\<rparr>
      in s2\<lparr>atom_pos_0dt := (atom_pos_0dt s2)(ii := atom_pos_nm s2 ii)\<rparr>)"

definition elecDensExtrapolation :: "dgelsd \<Rightarrow> SPARC_OBJ \<Rightarrow> SPARC_OBJ" where
  "elecDensExtrapolation LAPACKE_dgelsd s =
     (if dmcomm_phi s = MPI_COMM_NULL then s
      else
        let s1 = for_loop (Nd_d s) shift_delectronDens s;
            s2 = predict_atom_pos s1;
            s3 = (if elecgs_Count s2 - StressCount s2 \<ge> 3
                  then extrapolate LAPACKE_dgelsd s2 else s2)
        in for_loop (3 * n_atom s3) shift_atom_pos s3)"


section \<open>Init\_electronDensity\<close>

text \<open>
  \<^verbatim>\<open>memcpy(dst + off, src, n * sizeof(double))\<close>: the first \<open>n\<close> doubles of \<open>src\<close> are
  copied to \<open>dst\<close> from the offset \<open>off\<close> on.
\<close>

definition memcpy :: "'a array \<Rightarrow> nat \<Rightarrow> 'a array \<Rightarrow> int \<Rightarrow> 'a array" where
  "memcpy dst off src n = (\<lambda>j. if off \<le> j \<and> j < off + nat n then src (j - off) else dst j)"

text \<open>
  Lines 102--106: the body of the loop that sets the up and the down channel from the
  total density and the magnetization.
\<close>

definition resolve_spin :: "int \<Rightarrow> nat \<Rightarrow> SPARC_OBJ \<Rightarrow> SPARC_OBJ" where
  "resolve_spin DMnd i s =
     (let rho_mag = mag s i;
          s1 = s\<lparr>electronDens := (electronDens s)
                 (nat (DMnd + int i) := (electronDens s i + rho_mag) / 2)\<rparr>
      in s1\<lparr>electronDens := (electronDens s1)
              (nat (2 * DMnd + int i) := (electronDens s1 i - rho_mag) / 2)\<rparr>)"

text \<open>
  Modelled from the spec: \<^verbatim>\<open>Calculate_diagonal_Density\<close> (declared in
  \<^verbatim>\<open>electronDensity.h\<close>, its code is not among the sources), called on the first step
  with the magnetization, the total channel and the up and down channels of
  \<^verbatim>\<open>electronDens\<close>. The spec: the Spin Resolver populates the up and down channels from
  (total, magnetization) pairs via up = (total + m)/2, down = (total - m)/2.
\<close>

definition Calculate_diagonal_Density :: "int \<Rightarrow> SPARC_OBJ \<Rightarrow> SPARC_OBJ" where
  "Calculate_diagonal_Density DMnd s = for_loop DMnd (resolve_spin DMnd) s"

text \<open>Lines 66--67: the body of the loop that stores the atom positions.\<close>

definition store_atom_pos :: "nat \<Rightarrow> SPARC_OBJ \<Rightarrow> SPARC_OBJ" where
  "store_atom_pos i s = s\<lparr>atom_pos_0dt := (atom_pos_0dt s)(i := atom_pos s i)\<rparr>"

text \<open>Lines 78--80: the body of the loop that applies the extrapolated deviation.\<close>

definition charge_extrapolation :: "nat \<Rightarrow> SPARC_OBJ \<Rightarrow> SPARC_OBJ" where
  "charge_extrapolation i s =
     (let s1 = s\<lparr>electronDens :=
                 (electronDens s)(i := electronDens_at s i + delectronDens s i)\<rparr>
      in if electronDens s1 i < 0
         then s1\<lparr>electronDens := (electronDens s1)(i := xc_rhotol s1)\<rparr>
         else s1)"

text \<open>Lines 70--82: the density that is staged for the scaling.\<close>

definition stage_density :: "SPARC_OBJ \<Rightarrow> SPARC_OBJ" where
  "stage_density s =
     (if elecgs_Count s - StressCount s \<ge> 3 \<and> (MDFlag s = 1 \<or> RelaxFlag s = 1)
      then for_loop (Nd_d s) charge_extrapolation s
      else s)"

text \<open>Lines 85--95: the value of \<^verbatim>\<open>int_rho\<close> of this process before the reduction.\<close>

definition int_rho_local :: "SPARC_OBJ \<Rightarrow> real" where
  "int_rho_local s =
     (if CyclixFlag s \<noteq> 0
      then for_loop (Nd_d s) (\<lambda>i int_rho. int_rho + electronDens s i * Intgwt_phi s i) 0
      else for_loop (Nd_d s) (\<lambda>i int_rho. int_rho + electronDens s i) 0 * dV s)"

text \<open>
  \<^verbatim>\<open>MPI_Allreduce(MPI_IN_PLACE, &int_rho, 1, MPI_DOUBLE, MPI_SUM, comm)\<close> as one process
  sees it: it receives the sum of its own contribution and of the contributions of the
  other processes of the communicator.
\<close>

definition MPI_Allreduce_SUM :: "real \<Rightarrow> real list \<Rightarrow> real" where
  "MPI_Allreduce_SUM own others = sum_list (own # others)"

text \<open>Line 99: the body of the scaling loop.\<close>

definition scale_density :: "real \<Rightarrow> nat \<Rightarrow> SPARC_OBJ \<Rightarrow> SPARC_OBJ" where
  "scale_density vscal i s =
     s\<lparr>electronDens := (electronDens s)(i := electronDens s i * vscal)\<rparr>"

text \<open>
  \<^verbatim>\<open>Init_electronDensity\<close>. Its parameters are \<^verbatim>\<open>Calculate_Magnorm\<close> (declared in
  \<^verbatim>\<open>electronDensity.h\<close>, not among the sources, and not described by the spec: the map
  from \<^verbatim>\<open>DMnd\<close> and the array \<^verbatim>\<open>mag\<close> to \<^verbatim>\<open>mag\<close> after the call) and the contributions of
  the other processes of \<^verbatim>\<open>dmcomm_phi\<close> to the reduction. The quotient
  \<^verbatim>\<open>PosCharge / int_rho\<close> of doubles is an infinity or a NaN when \<^verbatim>\<open>int_rho\<close> is zero:
  no real number, and the result is \<open>None\<close>.
\<close>

definition Init_electronDensity ::
  "(int \<Rightarrow> real array \<Rightarrow> real array) \<Rightarrow> real list \<Rightarrow> SPARC_OBJ \<Rightarrow> SPARC_OBJ option" where
  "Init_electronDensity Calculate_Magnorm others s =
     (if dmcomm_phi s \<noteq> MPI_COMM_NULL then
        let DMnd = Nd_d s in
        if elecgs_Count s - StressCount s = 0 then
          let s1 = s\<lparr>electronDens := memcpy (electronDens s) 0 (electronDens_at s) DMnd\<rparr>;
              s2 = (if spin_typ s1 = 1 then
                      Calculate_diagonal_Density DMnd
                        (s1\<lparr>mag := memcpy (mag s1) 0 (mag_at s1) DMnd\<rparr>)
                    else if spin_typ s1 = 2 then
                      let s1a = s1\<lparr>mag := memcpy (mag s1) (nat DMnd) (mag_at s1) (DMnd * 3)\<rparr>;
                          s1b = s1a\<lparr>mag := Calculate_Magnorm DMnd (mag s1a)\<rparr>
                      in Calculate_diagonal_Density DMnd s1b
                    else s1)
          in if MDFlag s2 = 1 \<or> RelaxFlag s2 = 1
             then Some (for_loop (3 * n_atom s2) store_atom_pos s2)
             else Some s2
        else
          let s1 = stage_density s;
              int_rho = MPI_Allreduce_SUM (int_rho_local s1) others
          in if int_rho = 0 then None
             else
               let vscal = PosCharge s1 / int_rho;
                   s2 = for_loop DMnd (scale_density vscal) s1
               in if spin_typ s2 \<noteq> 0
                  then Some (for_loop DMnd (resolve_spin DMnd) s2)
                  else Some s2
      else Some s)"

text \<open>
  The processes of one \<^verbatim>\<open>dmcomm_phi\<close> communicator, each with its own context object,
  on a step where all of them reach the reduction (every member of the group has to
  call a collective operation): the process of rank \<open>r\<close> contributes the integral of
  its staged density and receives the contributions of the others.
\<close>

definition contributions :: "SPARC_OBJ list \<Rightarrow> real list" where
  "contributions ps = map (\<lambda>p. int_rho_local (stage_density p)) ps"

definition others_of :: "nat \<Rightarrow> 'a list \<Rightarrow> 'a list" where
  "others_of r xs = take r xs @ drop (Suc r) xs"

definition Init_electronDensity_group ::
  "(int \<Rightarrow> real array \<Rightarrow> real array) \<Rightarrow> SPARC_OBJ list \<Rightarrow> SPARC_OBJ list option" where
  "Init_electronDensity_group Calculate_Magnorm ps =
     those (map (\<lambda>r. Init_electronDensity Calculate_Magnorm
                       (others_of r (contributions ps)) (ps ! r))
                [0..<length ps])"

text \<open>
  The volume integral of the total-density channel in the words of the spec: the sum
  over the local nodes of the density times the integration weight of the node, which
  is \<^verbatim>\<open>Intgwt_phi[i]\<close> in the Cyclix case and the uniform \<^verbatim>\<open>dV\<close> otherwise. It is compared
  with \<open>int_rho_local\<close> below.
\<close>

definition integration_weight :: "SPARC_OBJ \<Rightarrow> nat \<Rightarrow> real" where
  "integration_weight s i = (if CyclixFlag s \<noteq> 0 then Intgwt_phi s i else dV s)"

definition volume_integral :: "SPARC_OBJ \<Rightarrow> real" where
  "volume_integral s = (\<Sum>i<nat (Nd_d s). electronDens s i * integration_weight s i)"


section \<open>Init\_orbital\<close>

datatype error = Memory_allocation_failed

text \<open>
  The heap is the number of blocks that \<^verbatim>\<open>malloc\<close> has handed out. Whether a call
  succeeds, and what the fresh block holds, is the allocator's choice: a parameter, a
  function of the heap and of the number of elements asked for.
\<close>

type_synonym heap = nat

definition malloc :: "(heap \<Rightarrow> int \<Rightarrow> 'a array option) \<Rightarrow> heap \<Rightarrow> int \<Rightarrow> heap \<times> 'a array option" where
  "malloc allocator h n =
     (case allocator h n of None \<Rightarrow> (h, None) | Some block \<Rightarrow> (h + 1, Some block))"

text \<open>
  The routines of \<^verbatim>\<open>tools.c\<close> and of the C library that \<^verbatim>\<open>Init_orbital\<close> calls; none of
  them is among the sources. \<^verbatim>\<open>SetRandMat\<close> and \<^verbatim>\<open>SetRandMat_complex\<close> fill a matrix from
  the process-local random generator: each is the map from its arguments (rows, columns,
  range, communicator) to the values it writes, in storage order. The other fields
  serve the seeded generator below.
\<close>

record tools =
  malloc_double :: "heap \<Rightarrow> int \<Rightarrow> real array option"
  malloc_complex :: "heap \<Rightarrow> int \<Rightarrow> complex array option"
  SetRandMat :: "int \<Rightarrow> int \<Rightarrow> real \<Rightarrow> real \<Rightarrow> MPI_Comm \<Rightarrow> real list"
  SetRandMat_complex :: "int \<Rightarrow> int \<Rightarrow> real \<Rightarrow> real \<Rightarrow> MPI_Comm \<Rightarrow> complex list"
  local_nodes :: "int list \<Rightarrow> int list \<Rightarrow> int list"
  seeded_value :: "real \<Rightarrow> real \<Rightarrow> int \<Rightarrow> real"
  seeded_value_complex :: "real \<Rightarrow> real \<Rightarrow> int \<Rightarrow> complex"

text \<open>
  Modelled from the spec: \<^verbatim>\<open>SeededRandVec\<close> and \<^verbatim>\<open>SeededRandVec_complex\<close> (declared in
  \<^verbatim>\<open>tools.h\<close>, their code is not among the sources), the Seeded Random Field
  Generator \<^verbatim>\<open>seeded_rand(buffer, domain_descriptor, grid_shape, low, high, global_offset)\<close>.
  The spec: given a global linear index and a domain-decomposition descriptor it
  deterministically produces a pseudo-random value in a range, a function of the global
  offset and the grid coordinates only, identical however the domain is partitioned;
  each coefficient's value is derived purely from its global index. Here
  \<open>local_nodes\<close> gives the global linear indices of the nodes of the local domain, in
  storage order, and \<open>seeded_value\<close> the pseudo-random value that belongs to a global
  index; the result is the list of the values written to the buffer.
\<close>

definition SeededRandVec ::
  "tools \<Rightarrow> int list \<Rightarrow> int list \<Rightarrow> real \<Rightarrow> real \<Rightarrow> int \<Rightarrow> real list" where
  "SeededRandVec t DMVert gridsizes rand_min rand_max seed_offset =
     map (\<lambda>g. seeded_value t rand_min rand_max (seed_offset + g))
       (local_nodes t DMVert gridsizes)"

definition SeededRandVec_complex ::
  "tools \<Rightarrow> int list \<Rightarrow> int list \<Rightarrow> real \<Rightarrow> real \<Rightarrow> int \<Rightarrow> complex list" where
  "SeededRandVec_complex t DMVert gridsizes rand_min rand_max seed_offset =
     map (\<lambda>g. seeded_value_complex t rand_min rand_max (seed_offset + g))
       (local_nodes t DMVert gridsizes)"

text \<open>
  A routine that is handed the pointer \<^verbatim>\<open>buf + shift\<close> and writes the values \<open>vs\<close> from
  there on.
\<close>

definition write_at :: "'a array \<Rightarrow> int \<Rightarrow> 'a list \<Rightarrow> 'a array" where
  "write_at buf shift vs =
     (\<lambda>j. if shift \<le> int j \<and> int j < shift + int (length vs)
          then vs ! nat (int j - shift) else buf j)"

text \<open>Lines 236--251: the random real orbitals.\<close>

definition fill_Xorb :: "tools \<Rightarrow> SPARC_OBJ \<Rightarrow> real array \<Rightarrow> real array" where
  "fill_Xorb t s X =
     (let DMnd = Nd_d_dmcomm s;
          DMndsp = DMnd * Nspinor_spincomm s;
          gridsizes = [Nx s, Ny s, Nz s]
      in if FixRandSeed s = 1 then
           let Ndsp = Nd s * Nspinor s
           in for_loop (Nband_bandcomm s) (\<lambda>n.
                for_loop (Nspinor_spincomm s) (\<lambda>spinor Xorb'.
                  let ng = band_start_indx s + int n;
                      spinorg = spinor_start_indx s + int spinor;
                      shift_g = ng * Ndsp + spinorg * Nd s;
                      shift = int n * DMndsp + int spinor * DMnd
                  in write_at Xorb' shift
                       (SeededRandVec t (DMVertices_dmcomm s) gridsizes (- 1 / 2) (1 / 2)
                          shift_g))) X
         else write_at X 0
                (SetRandMat t DMndsp (Nband_bandcomm s) (- 1 / 2) (1 / 2) (spincomm s)))"

text \<open>Lines 268--288: the random complex orbitals.\<close>

definition fill_Xorb_kpt :: "tools \<Rightarrow> SPARC_OBJ \<Rightarrow> complex array \<Rightarrow> complex array" where
  "fill_Xorb_kpt t s X =
     (let DMnd = Nd_d_dmcomm s;
          DMndsp = DMnd * Nspinor_spincomm s;
          size_k = DMndsp * Nband_bandcomm s;
          gridsizes = [Nx s, Ny s, Nz s]
      in if FixRandSeed s = 1 then
           let Ndsp = Nd s * Nspinor s;
               size_kg = Ndsp * Nstates s
           in for_loop (Nkpts_kptcomm s) (\<lambda>k.
                for_loop (Nband_bandcomm s) (\<lambda>n.
                  for_loop (Nspinor_spincomm s) (\<lambda>spinor Xorb_kpt'.
                    let kg = kpt_start_indx s + int k;
                        ng = band_start_indx s + int n;
                        spinorg = spinor_start_indx s + int spinor;
                        shift_g = kg * size_kg + ng * Ndsp + spinorg * Nd s;
                        shift = int k * size_k + int n * DMndsp + int spinor * DMnd
                    in write_at Xorb_kpt' shift
                         (SeededRandVec_complex t (DMVertices_dmcomm s) gridsizes
                            (- 1 / 2) (1 / 2) shift_g)))) X
         else write_at X 0
                (SetRandMat_complex t DMndsp (Nband_bandcomm s * Nkpts_kptcomm s)
                   (- 1 / 2) (1 / 2) (spincomm s)))"

text \<open>
  \<^verbatim>\<open>Init_orbital\<close>, on the heap and the context object. \<^verbatim>\<open>exit(EXIT_FAILURE)\<close> is the
  error \<open>Memory_allocation_failed\<close>.
\<close>

definition Init_orbital :: "tools \<Rightarrow> heap \<times> SPARC_OBJ \<Rightarrow> error + heap \<times> SPARC_OBJ" where
  "Init_orbital t = (\<lambda>(h, s).
     if dmcomm s = MPI_COMM_NULL then Inr (h, s)
     else
       let DMnd = Nd_d_dmcomm s;
           DMndsp = DMnd * Nspinor_spincomm s;
           size_k = DMndsp * Nband_bandcomm s;
           len_tot = size_k * Nkpts_kptcomm s
       in if elecgs_Count s = 0 then
            if isGammaPoint s \<noteq> 0 then
              let (h1, X) = malloc (malloc_double t) h len_tot;
                  (h2, Y) = malloc (malloc_double t) h1 size_k;
                  s1 = s\<lparr>Xorb := X, Yorb := Y\<rparr>
              in case (X, Y) of
                   (Some Xblock, Some Yblock) \<Rightarrow>
                     Inr (h2, s1\<lparr>Xorb := Some (fill_Xorb t s1 Xblock)\<rparr>)
                 | _ \<Rightarrow> Inl Memory_allocation_failed
            else
              let (h1, X) = malloc (malloc_complex t) h len_tot;
                  (h2, Y) = malloc (malloc_complex t) h1 size_k;
                  s1 = s\<lparr>Xorb_kpt := X, Yorb_kpt := Y\<rparr>
              in case (X, Y) of
                   (Some Xblock, Some Yblock) \<Rightarrow>
                     Inr (h2, s1\<lparr>Xorb_kpt := Some (fill_Xorb_kpt t s1 Xblock)\<rparr>)
                 | _ \<Rightarrow> Inl Memory_allocation_failed
          else Inr (h, s))"


section \<open>Example configurations\<close>

text \<open>
  Concrete inputs, on which the functions above are evaluated below: a context object
  with every number and every array zero and no orbital block, in a density group; a
  solver for the systems with a regular matrix (Cramer's rule); a molecular-dynamics
  step; a molecular-dynamics step whose position differences are not orthogonal and
  whose deviation history is not linear; and a relaxation step.
\<close>

definition pSPARC0 :: SPARC_OBJ where
  "pSPARC0 =
     \<lparr>dmcomm_phi = MPI_Comm 0, dmcomm = MPI_Comm 0, spincomm = MPI_Comm 0,
      Nd_d = 0, Nd_d_dmcomm = 0, elecgs_Count = 0, StressCount = 0, MDCount = 0,
      MDFlag = 0, RelaxFlag = 0, spin_typ = 0, CyclixFlag = 0, n_atom = 0,
      electronDens = (\<lambda>_. 0), electronDens_at = (\<lambda>_. 0), delectronDens = (\<lambda>_. 0),
      delectronDens_0dt = (\<lambda>_. 0), delectronDens_1dt = (\<lambda>_. 0),
      delectronDens_2dt = (\<lambda>_. 0), mag = (\<lambda>_. 0), mag_at = (\<lambda>_. 0),
      Intgwt_phi = (\<lambda>_. 0), dV = 0, PosCharge = 0, xc_rhotol = 0,
      atom_pos = (\<lambda>_. 0), atom_pos_nm = (\<lambda>_. 0), atom_pos_0dt = (\<lambda>_. 0),
      atom_pos_1dt = (\<lambda>_. 0), atom_pos_2dt = (\<lambda>_. 0), ion_vel = (\<lambda>_. 0),
      MD_dt = 0, Relax_fac = 0, d = (\<lambda>_. 0), mvAtmConstraint = (\<lambda>_. 0),
      Nspinor_spincomm = 0, Nband_bandcomm = 0, Nkpts_kptcomm = 0,
      Nx = 0, Ny = 0, Nz = 0, Nd = 0, Nspinor = 0, Nstates = 0,
      isGammaPoint = 0, FixRandSeed = 0, band_start_indx = 0, spinor_start_indx = 0,
      kpt_start_indx = 0, DMVertices_dmcomm = [0, 0, 0, 0, 0, 0],
      Xorb = None, Yorb = None, Xorb_kpt = None, Yorb_kpt = None\<rparr>"

definition cramer2 :: dgelsd where
  "cramer2 A b =
     (let det = A 0 * A 3 - A 2 * A 1
      in if det = 0 then (\<lambda>_. 0)
         else b(0 := (b 0 * A 3 - A 2 * b 1) / det, 1 := (A 0 * b 1 - b 0 * A 1) / det))"

definition pSPARC_md :: SPARC_OBJ where
  "pSPARC_md = pSPARC0
     \<lparr>Nd_d := 1, elecgs_Count := 3, MDCount := 3, MDFlag := 1, n_atom := 1,
      electronDens := (\<lambda>_. 11 / 100), electronDens_at := (\<lambda>_. 1 / 10),
      delectronDens_0dt := (\<lambda>_. 2 / 100), delectronDens_1dt := (\<lambda>_. 3 / 100),
      atom_pos := (\<lambda>_. 0)(0 := 1, 1 := 1),
      atom_pos_nm := (\<lambda>_. 0)(0 := 1, 1 := 1),
      atom_pos_0dt := (\<lambda>_. 0)(0 := 1, 1 := 1),
      atom_pos_1dt := (\<lambda>_. 0)(1 := 1),
      ion_vel := (\<lambda>_. 0)(0 := 1 / 2, 1 := - 1 / 2), MD_dt := 1\<rparr>"

definition pSPARC_extrapolate :: SPARC_OBJ where
  "pSPARC_extrapolate = pSPARC0
     \<lparr>Nd_d := 1, elecgs_Count := 3, MDCount := 3, MDFlag := 1, n_atom := 1,
      electronDens := (\<lambda>_. 11 / 100), electronDens_at := (\<lambda>_. 1 / 10),
      delectronDens_0dt := (\<lambda>_. 2 / 100), delectronDens_1dt := (\<lambda>_. 5 / 100),
      atom_pos := (\<lambda>_. 0)(0 := 2, 1 := 1),
      atom_pos_nm := (\<lambda>_. 0)(0 := 2, 1 := 1),
      atom_pos_0dt := (\<lambda>_. 0)(0 := 2, 1 := 1),
      atom_pos_1dt := (\<lambda>_. 0)(0 := 1, 1 := 1),
      ion_vel := (\<lambda>_. 0)(0 := 1, 1 := 2), MD_dt := 1 / 2\<rparr>"

definition pSPARC_relax :: SPARC_OBJ where
  "pSPARC_relax = pSPARC0
     \<lparr>Nd_d := 1, elecgs_Count := 2, RelaxFlag := 1, n_atom := 1,
      atom_pos := (\<lambda>_. 1), atom_pos_nm := (\<lambda>_. 1), atom_pos_0dt := (\<lambda>_. 1),
      Relax_fac := 1 / 2, d := (\<lambda>_. 2), mvAtmConstraint := (\<lambda>_. 1)(1 := 0)\<rparr>"


text \<open>
  For \<^verbatim>\<open>Init_electronDensity\<close>: a norm of the magnetization vector for
  \<^verbatim>\<open>Calculate_Magnorm\<close>; a step with an extrapolated density between zero and the floor;
  the entry \<open>j\<close> of \<^verbatim>\<open>electronDens\<close> in a result; a step with a negative extrapolated
  density; a spin-polarized later step; and the scenario of the spec (four nodes,
  density 0.1, 0.2, 0.3, 0.4, target charge 2, weight 1).
\<close>

definition Magnorm_example :: "int \<Rightarrow> real array \<Rightarrow> real array" where
  "Magnorm_example DMnd m =
     (\<lambda>j. if j < nat DMnd
          then sqrt ((m (nat DMnd + j))\<^sup>2 + (m (2 * nat DMnd + j))\<^sup>2
                     + (m (3 * nat DMnd + j))\<^sup>2)
          else m j)"

definition pSPARC_tiny :: SPARC_OBJ where
  "pSPARC_tiny = pSPARC0
     \<lparr>Nd_d := 2, elecgs_Count := 3, MDFlag := 1, dV := 1, PosCharge := 1,
      xc_rhotol := 1 / 10 ^ 14,
      electronDens_at := (\<lambda>_. 0)(0 := 1 - 1 / 10 ^ 15, 1 := 1 / 10 ^ 15)\<rparr>"

definition electronDens_of :: "SPARC_OBJ option \<Rightarrow> nat \<Rightarrow> real option" where
  "electronDens_of r j = (case r of None \<Rightarrow> None | Some s \<Rightarrow> Some (electronDens s j))"

definition pSPARC_negative :: SPARC_OBJ where
  "pSPARC_negative = pSPARC0
     \<lparr>Nd_d := 1, elecgs_Count := 3, MDFlag := 1, xc_rhotol := 1 / 10 ^ 14,
      electronDens_at := (\<lambda>_. 1 / 10), delectronDens := (\<lambda>_. - 2 / 10)\<rparr>"

definition pSPARC_spin :: SPARC_OBJ where
  "pSPARC_spin = pSPARC0
     \<lparr>Nd_d := 2, elecgs_Count := 1, spin_typ := 1, dV := 1, PosCharge := 2,
      electronDens := (\<lambda>_. 1 / 2), mag := (\<lambda>_. 0)(0 := 1 / 2)\<rparr>"

definition pSPARC_scenario :: SPARC_OBJ where
  "pSPARC_scenario = pSPARC0
     \<lparr>Nd_d := 4, elecgs_Count := 1, dV := 1, PosCharge := 2,
      electronDens := (\<lambda>_. 0)(0 := 1 / 10, 1 := 2 / 10, 2 := 3 / 10, 3 := 4 / 10)\<rparr>"


text \<open>
  For \<^verbatim>\<open>Init_orbital\<close>: an allocator that serves every request of a size that is not
  negative with a zeroed block; a local domain of one node; a seeded generator whose
  value for the global index \<open>g\<close> is \<open>low + (high - low) * (g mod 4) / 4\<close>, a value of
  the range; a first step with two k-points, one band and one spinor on a grid of one
  node, with the seeded mode on; the same step at the gamma point; an allocator that
  has no block for doubles and one block only for complex numbers; and the coefficient
  \<open>j\<close> of \<^verbatim>\<open>Xorb_kpt\<close> in a result.
\<close>

definition tools_example :: tools where
  "tools_example =
     \<lparr>malloc_double = (\<lambda>h n. if 0 \<le> n then Some (\<lambda>_. 0) else None),
      malloc_complex = (\<lambda>h n. if 0 \<le> n then Some (\<lambda>_. 0) else None),
      SetRandMat = (\<lambda>m n lo hi comm. replicate (nat (m * n)) lo),
      SetRandMat_complex = (\<lambda>m n lo hi comm. replicate (nat (m * n)) (complex_of_real lo)),
      local_nodes = (\<lambda>DMVert gridsizes. [0]),
      seeded_value = (\<lambda>lo hi g. lo + (hi - lo) * (real_of_int (g mod 4) / 4)),
      seeded_value_complex =
        (\<lambda>lo hi g. complex_of_real (lo + (hi - lo) * (real_of_int (g mod 4) / 4)))\<rparr>"

definition pSPARC_kpt :: SPARC_OBJ where
  "pSPARC_kpt = pSPARC0
     \<lparr>Nd_d_dmcomm := 1, Nspinor_spincomm := 1, Nband_bandcomm := 1, Nkpts_kptcomm := 2,
      Nx := 1, Ny := 1, Nz := 1, Nd := 1, Nspinor := 1, Nstates := 1, FixRandSeed := 1\<rparr>"

definition pSPARC_gamma :: SPARC_OBJ where
  "pSPARC_gamma = pSPARC_kpt\<lparr>Nkpts_kptcomm := 1, isGammaPoint := 1\<rparr>"

definition tools_no_memory :: tools where
  "tools_no_memory =
     tools_example\<lparr>malloc_double := (\<lambda>h n. None),
                    malloc_complex := (\<lambda>h n. if h = 0 then Some (\<lambda>_. 0) else None)\<rparr>"

definition Xorb_kpt_of :: "error + heap \<times> SPARC_OBJ \<Rightarrow> nat \<Rightarrow> complex option" where
  "Xorb_kpt_of r j =
     (case r of Inl e \<Rightarrow> None
      | Inr (h, s) \<Rightarrow> (case Xorb_kpt s of None \<Rightarrow> None | Some X \<Rightarrow> Some (X j)))"


section \<open>Properties of bessel.c\<close>

lemma poly_loop_sum:
  "poly_loop cof k x ans = ans * x ^ k + (\<Sum>i<k. cof ! i * x ^ i)"
proof (induction k arbitrary: ans)
  case 0
  show ?case by simp
next
  case (Suc k)
  show ?case by (simp add: Suc.IH algebra_simps)
qed

text \<open>
  Claim C10. \<^verbatim>\<open>poly\<close> evaluates the polynomial with the coefficients \<^verbatim>\<open>cof[0..n]\<close> at
  \<^verbatim>\<open>x\<close>: for a coefficient array of length at least \<open>n + 1\<close> and \<open>n \<ge> 0\<close> it returns
  the sum of \<^verbatim>\<open>cof[i]\<close> times \<open>x\<close> to the power \<open>i\<close>, for \<open>i\<close> from 0 to \<open>n\<close>.
\<close>

theorem poly_horner:
  assumes "0 \<le> n" and "nat n < length cof"
  shows "poly cof n x = Some (\<Sum>i\<le>nat n. cof ! i * x ^ i)"
  using assms by (simp add: poly_def poly_loop_sum lessThan_Suc_atMost [symmetric])

theorem poly_horner_witness:
  "(0::int) \<le> 2 \<and> nat 2 < length [1, 2, 3 :: real] \<and> poly [1, 2, 3] 2 2 = Some 17"
  using poly_horner [of 2 "[1, 2, 3]" 2] by (simp add: atMost_Suc eval_nat_numeral)


section \<open>Properties of elecDensExtrapolation\<close>

subsection \<open>The loops in closed form\<close>

lemma fold_upt_Suc: "fold body [0..<Suc k] s = body k (fold body [0..<k] s)"
  by simp

lemma upd_prefix:
  "(\<lambda>j. if j < k then a j else b j)(k := a k) = (\<lambda>j. if j < Suc k then a j else b j)"
  by (auto simp: fun_eq_iff less_Suc_eq)

lemma upd_prefix3:
  "(\<lambda>j. if j < k * 3 then a j else b j)(k * 3 := a (k * 3), k * 3 + 1 := a (k * 3 + 1), k * 3 + 2 := a (k * 3 + 2))
    = (\<lambda>j. if j < Suc k * 3 then a j else b j)"
  by (auto simp: fun_eq_iff)

lemma fold_shift_delectronDens:
  "fold shift_delectronDens [0..<k] s =
     s\<lparr>delectronDens_2dt := (\<lambda>j. if j < k then delectronDens_1dt s j else delectronDens_2dt s j),
       delectronDens_1dt := (\<lambda>j. if j < k then delectronDens_0dt s j else delectronDens_1dt s j),
       delectronDens_0dt := (\<lambda>j. if j < k then electronDens s j - electronDens_at s j
                                  else delectronDens_0dt s j)\<rparr>"
proof (induction k)
  case 0
  show ?case by simp
next
  case (Suc k)
  show ?case
    unfolding fold_upt_Suc Suc.IH
    by (simp add: shift_delectronDens_def upd_prefix [symmetric] del: fun_upd_apply)
qed

lemma fold_shift_atom_pos:
  "fold shift_atom_pos [0..<k] s =
     s\<lparr>atom_pos_2dt := (\<lambda>j. if j < k then atom_pos_1dt s j else atom_pos_2dt s j),
       atom_pos_1dt := (\<lambda>j. if j < k then atom_pos_0dt s j else atom_pos_1dt s j),
       atom_pos_0dt := (\<lambda>j. if j < k then atom_pos_nm s j else atom_pos_0dt s j)\<rparr>"
proof (induction k)
  case 0
  show ?case by simp
next
  case (Suc k)
  show ?case
    unfolding fold_upt_Suc Suc.IH
    by (simp add: shift_atom_pos_def upd_prefix [symmetric] del: fun_upd_apply)
qed

lemma fold_predict_MD:
  "fold predict_MD [0..<k] (0, s) =
     (k, s\<lparr>atom_pos_nm := (\<lambda>j. if j < k * 3
            then (if MDCount s = 1 then atom_pos s j
                  else atom_pos_nm s j + MD_dt s * ion_vel s j)
            else atom_pos_nm s j)\<rparr>)"
proof (induction k)
  case 0
  show ?case by simp
next
  case (Suc k)
  show ?case
    unfolding fold_upt_Suc Suc.IH
    by (simp add: predict_MD_def upd_prefix3 [symmetric] del: fun_upd_apply mult_Suc)
qed

lemma fold_predict_Relax:
  "fold predict_Relax [0..<k] (0, s) =
     (k, s\<lparr>atom_pos_nm := (\<lambda>j. if j < k * 3
            then (if elecgs_Count s - StressCount s = 1 then atom_pos s j
                  else atom_pos_nm s j + Relax_fac s * d s j * mvAtmConstraint s j)
            else atom_pos_nm s j)\<rparr>)"
proof (induction k)
  case 0
  show ?case by simp
next
  case (Suc k)
  show ?case
    unfolding fold_upt_Suc Suc.IH
    by (simp add: predict_Relax_def upd_prefix3 [symmetric] del: fun_upd_apply mult_Suc)
qed

lemma fold_accumulate_FtF:
  "fold (accumulate_FtF s) [0..<k] (\<lambda>_. 0, \<lambda>_. 0) =
     ((\<lambda>_. 0)
        (0 := \<Sum>i<k. (atom_pos_0dt s i - atom_pos_1dt s i) * (atom_pos_0dt s i - atom_pos_1dt s i),
         1 := \<Sum>i<k. (atom_pos_0dt s i - atom_pos_1dt s i) * (atom_pos_1dt s i - atom_pos_2dt s i),
         3 := \<Sum>i<k. (atom_pos_1dt s i - atom_pos_2dt s i) * (atom_pos_1dt s i - atom_pos_2dt s i)),
      (\<lambda>_. 0)
        (0 := \<Sum>i<k. (atom_pos_0dt s i - atom_pos_1dt s i) * (atom_pos_nm s i - atom_pos_0dt s i),
         1 := \<Sum>i<k. (atom_pos_1dt s i - atom_pos_2dt s i) * (atom_pos_nm s i - atom_pos_0dt s i)))"
proof (induction k)
  case 0
  show ?case by (simp add: fun_eq_iff)
next
  case (Suc k)
  show ?case
    unfolding fold_upt_Suc Suc.IH
    by (simp add: accumulate_FtF_def Let_def fun_eq_iff)
qed

lemma fold_extrapolate_delectronDens:
  "fold (extrapolate_delectronDens alpha beta) [0..<k] s =
     s\<lparr>delectronDens := (\<lambda>j. if j < k
          then (1 + alpha) * delectronDens_0dt s j + (beta - alpha) * delectronDens_1dt s j
               - beta * delectronDens_2dt s j
          else delectronDens s j)\<rparr>"
proof (induction k)
  case 0
  show ?case by simp
next
  case (Suc k)
  show ?case
    unfolding fold_upt_Suc Suc.IH
    by (simp add: extrapolate_delectronDens_def upd_prefix [symmetric] del: fun_upd_apply)
qed

lemma for_loop_shift_delectronDens:
  "for_loop n shift_delectronDens s =
     s\<lparr>delectronDens_2dt :=
         (\<lambda>j. if j < nat n then delectronDens_1dt s j else delectronDens_2dt s j),
       delectronDens_1dt :=
         (\<lambda>j. if j < nat n then delectronDens_0dt s j else delectronDens_1dt s j),
       delectronDens_0dt :=
         (\<lambda>j. if j < nat n then electronDens s j - electronDens_at s j
              else delectronDens_0dt s j)\<rparr>"
  unfolding for_loop_def by (rule fold_shift_delectronDens)

lemma predict_atom_pos_eq:
  "predict_atom_pos s =
     s\<lparr>atom_pos_nm := (\<lambda>j.
        if j < nat (n_atom s) * 3 then
          (if MDFlag s = 1 then
             (if MDCount s = 1 then atom_pos s j
              else atom_pos_nm s j + MD_dt s * ion_vel s j)
           else if RelaxFlag s = 1 then
             (if elecgs_Count s - StressCount s = 1 then atom_pos s j
              else atom_pos_nm s j + Relax_fac s * d s j * mvAtmConstraint s j)
           else atom_pos_nm s j)
        else atom_pos_nm s j)\<rparr>"
  by (cases "MDFlag s = 1"; cases "RelaxFlag s = 1")
     (simp_all add: predict_atom_pos_def for_loop_def fold_predict_MD fold_predict_Relax
        cong: if_cong)

lemma build_FtF_eq:
  "build_FtF s =
     ((\<lambda>_. 0)
        (0 := \<Sum>i<nat (3 * n_atom s).
                (atom_pos_0dt s i - atom_pos_1dt s i) * (atom_pos_0dt s i - atom_pos_1dt s i),
         1 := \<Sum>i<nat (3 * n_atom s).
                (atom_pos_0dt s i - atom_pos_1dt s i) * (atom_pos_1dt s i - atom_pos_2dt s i),
         3 := \<Sum>i<nat (3 * n_atom s).
                (atom_pos_1dt s i - atom_pos_2dt s i) * (atom_pos_1dt s i - atom_pos_2dt s i),
         2 := \<Sum>i<nat (3 * n_atom s).
                (atom_pos_0dt s i - atom_pos_1dt s i) * (atom_pos_1dt s i - atom_pos_2dt s i)),
      (\<lambda>_. 0)
        (0 := \<Sum>i<nat (3 * n_atom s).
                (atom_pos_0dt s i - atom_pos_1dt s i) * (atom_pos_nm s i - atom_pos_0dt s i),
         1 := \<Sum>i<nat (3 * n_atom s).
                (atom_pos_1dt s i - atom_pos_2dt s i) * (atom_pos_nm s i - atom_pos_0dt s i)))"
  by (simp add: build_FtF_def for_loop_def fold_accumulate_FtF)

lemma extrapolate_eq:
  "extrapolate L s =
     s\<lparr>delectronDens := (\<lambda>j. if j < nat (Nd_d s)
          then (1 + L (fst (build_FtF s)) (snd (build_FtF s)) 0) * delectronDens_0dt s j
               + (L (fst (build_FtF s)) (snd (build_FtF s)) 1
                  - L (fst (build_FtF s)) (snd (build_FtF s)) 0) * delectronDens_1dt s j
               - L (fst (build_FtF s)) (snd (build_FtF s)) 1 * delectronDens_2dt s j
          else delectronDens s j)\<rparr>"
  by (simp add: extrapolate_def for_loop_def fold_extrapolate_delectronDens
        split_beta Let_def cong: if_cong)

lemma for_loop_shift_atom_pos:
  "for_loop n shift_atom_pos s =
     s\<lparr>atom_pos_2dt := (\<lambda>j. if j < nat n then atom_pos_1dt s j else atom_pos_2dt s j),
       atom_pos_1dt := (\<lambda>j. if j < nat n then atom_pos_0dt s j else atom_pos_1dt s j),
       atom_pos_0dt := (\<lambda>j. if j < nat n then atom_pos_nm s j else atom_pos_0dt s j)\<rparr>"
  unfolding for_loop_def by (rule fold_shift_atom_pos)

lemmas elecDensExtrapolation_eqs =
  elecDensExtrapolation_def for_loop_shift_delectronDens predict_atom_pos_eq
  extrapolate_eq for_loop_shift_atom_pos

lemma FtF_updates:
  "(\<lambda>_::nat. 0::real)(0 := a, 1 := b, 3 := c, 2 := b) = (\<lambda>_. 0)(0 := a, 1 := b, 2 := b, 3 := c)"
  by (simp add: fun_eq_iff)

subsection \<open>Processes outside the density group\<close>

text \<open>
  Claim C8. On a process whose \<^verbatim>\<open>dmcomm_phi\<close> is \<^verbatim>\<open>MPI_COMM_NULL\<close> the call
  \<^verbatim>\<open>elecDensExtrapolation\<close> returns at once and leaves the whole context object as it
  was: no deviation history, no position history, no predicted position and no pending
  deviation is written.
\<close>

theorem elecDensExtrapolation_idle:
  assumes "dmcomm_phi s = MPI_COMM_NULL"
  shows "elecDensExtrapolation LAPACKE_dgelsd s = s"
  using assms by (simp add: elecDensExtrapolation_def)

theorem elecDensExtrapolation_idle_witness:
  "dmcomm_phi (pSPARC_md\<lparr>dmcomm_phi := MPI_COMM_NULL\<rparr>) = MPI_COMM_NULL
   \<and> elecDensExtrapolation cramer2 (pSPARC_md\<lparr>dmcomm_phi := MPI_COMM_NULL\<rparr>)
       = pSPARC_md\<lparr>dmcomm_phi := MPI_COMM_NULL\<rparr>"
  using elecDensExtrapolation_idle [of "pSPARC_md\<lparr>dmcomm_phi := MPI_COMM_NULL\<rparr>" cramer2]
  by simp

subsection \<open>The predicted positions\<close>

text \<open>
  Claim C6. On a participating process the predicted position \<^verbatim>\<open>atom_pos_nm\<close> of every
  coordinate \<open>j\<close> of every atom is, after the call: in MD mode (\<^verbatim>\<open>MDFlag == 1\<close>), the
  current position \<^verbatim>\<open>atom_pos[j]\<close> when \<^verbatim>\<open>MDCount == 1\<close> and otherwise the previous
  prediction plus \<^verbatim>\<open>MD_dt * ion_vel[j]\<close>; in relaxation mode (\<^verbatim>\<open>RelaxFlag == 1\<close>, the
  branch the code takes when \<^verbatim>\<open>MDFlag\<close> is not 1), the current position when
  \<^verbatim>\<open>elecgs_Count - StressCount == 1\<close> and otherwise the previous prediction plus
  \<^verbatim>\<open>Relax_fac * d[j] * mvAtmConstraint[j]\<close>.
\<close>

theorem elecDensExtrapolation_atom_pos_nm:
  assumes "dmcomm_phi s \<noteq> MPI_COMM_NULL"
    and "j < 3 * nat (n_atom s)"
  shows "(MDFlag s = 1 \<longrightarrow>
            atom_pos_nm (elecDensExtrapolation LAPACKE_dgelsd s) j =
              (if MDCount s = 1 then atom_pos s j
               else atom_pos_nm s j + MD_dt s * ion_vel s j))
       \<and> (MDFlag s \<noteq> 1 \<and> RelaxFlag s = 1 \<longrightarrow>
            atom_pos_nm (elecDensExtrapolation LAPACKE_dgelsd s) j =
              (if elecgs_Count s - StressCount s = 1 then atom_pos s j
               else atom_pos_nm s j + Relax_fac s * d s j * mvAtmConstraint s j))"
  using assms by (simp add: elecDensExtrapolation_eqs Let_def)

theorem elecDensExtrapolation_atom_pos_nm_witness:
  "dmcomm_phi pSPARC_md \<noteq> MPI_COMM_NULL \<and> (0::nat) < 3 * nat (n_atom pSPARC_md)
   \<and> MDFlag pSPARC_md = 1 \<and> MDCount pSPARC_md \<noteq> 1
   \<and> atom_pos_nm (elecDensExtrapolation cramer2 pSPARC_md) 0 = 3 / 2
   \<and> dmcomm_phi pSPARC_relax \<noteq> MPI_COMM_NULL \<and> (1::nat) < 3 * nat (n_atom pSPARC_relax)
   \<and> MDFlag pSPARC_relax \<noteq> 1 \<and> RelaxFlag pSPARC_relax = 1
   \<and> elecgs_Count pSPARC_relax - StressCount pSPARC_relax \<noteq> 1
   \<and> atom_pos_nm (elecDensExtrapolation cramer2 pSPARC_relax) 1 = 1"
  using elecDensExtrapolation_atom_pos_nm [of pSPARC_md 0 cramer2]
    elecDensExtrapolation_atom_pos_nm [of pSPARC_relax 1 cramer2]
  by (simp add: pSPARC_md_def pSPARC_relax_def pSPARC0_def)

subsection \<open>The extrapolated deviation\<close>

lemma pSPARC_relax_facts:
  "dmcomm_phi pSPARC_relax \<noteq> MPI_COMM_NULL"
  "elecgs_Count pSPARC_relax - StressCount pSPARC_relax = 2"
  by (simp_all add: pSPARC_relax_def pSPARC0_def)

lemma pSPARC_extrapolate_facts:
  "dmcomm_phi pSPARC_extrapolate \<noteq> MPI_COMM_NULL"
  "elecgs_Count pSPARC_extrapolate - StressCount pSPARC_extrapolate = 3"
  "Nd_d pSPARC_extrapolate = 1"
  "n_atom pSPARC_extrapolate = 1"
  by (simp_all add: pSPARC_extrapolate_def pSPARC0_def)

lemma pSPARC_extrapolate_positions:
  "atom_pos_0dt pSPARC_extrapolate 0 = 2" "atom_pos_0dt pSPARC_extrapolate (Suc 0) = 1"
  "atom_pos_0dt pSPARC_extrapolate 2 = 0"
  "atom_pos_1dt pSPARC_extrapolate 0 = 1" "atom_pos_1dt pSPARC_extrapolate (Suc 0) = 1"
  "atom_pos_1dt pSPARC_extrapolate 2 = 0"
  "atom_pos_2dt pSPARC_extrapolate 0 = 0" "atom_pos_2dt pSPARC_extrapolate (Suc 0) = 0"
  "atom_pos_2dt pSPARC_extrapolate 2 = 0"
  "atom_pos_nm (elecDensExtrapolation cramer2 pSPARC_extrapolate) 0 = 5 / 2"
  "atom_pos_nm (elecDensExtrapolation cramer2 pSPARC_extrapolate) (Suc 0) = 2"
  "atom_pos_nm (elecDensExtrapolation cramer2 pSPARC_extrapolate) 2 = 0"
  by (simp_all add: elecDensExtrapolation_eqs pSPARC_extrapolate_def pSPARC0_def Let_def)

lemma pSPARC_extrapolate_history:
  "delectronDens_0dt (elecDensExtrapolation cramer2 pSPARC_extrapolate) 0 = 1 / 100"
  "delectronDens_1dt (elecDensExtrapolation cramer2 pSPARC_extrapolate) 0 = 2 / 100"
  "delectronDens_2dt (elecDensExtrapolation cramer2 pSPARC_extrapolate) 0 = 5 / 100"
  by (simp_all add: elecDensExtrapolation_eqs pSPARC_extrapolate_def pSPARC0_def Let_def)

lemma cramer2_extrapolate:
  "cramer2 ((\<lambda>_. 0)(0 := 1, Suc 0 := 1, 2 := 1, 3 := 2))
     ((\<lambda>_. 0)(0 := 1 / 2, Suc 0 := 3 / 2)) 0 = - 1 / 2"
  "cramer2 ((\<lambda>_. 0)(0 := 1, Suc 0 := 1, 2 := 1, 3 := 2))
     ((\<lambda>_. 0)(0 := 1 / 2, Suc 0 := 3 / 2)) (Suc 0) = 1"
  by (simp_all add: cramer2_def)

text \<open>
  Claim C1. On a participating process, if \<^verbatim>\<open>elecgs_Count - StressCount < 3\<close> the call
  leaves the pending deviation \<^verbatim>\<open>delectronDens\<close> as it was; if it is at least 3, every
  local node \<open>nd\<close> holds
  \<open>(1 + alpha) * delectronDens_0dt[nd] + (beta - alpha) * delectronDens_1dt[nd]
   - beta * delectronDens_2dt[nd]\<close>
  over the shifted deviation history, where \<open>alpha\<close> and \<open>beta\<close> are the two entries
  that the least-squares solver returns for this matrix and this vector: with
  \<open>temp1 = atom_pos_0dt - atom_pos_1dt\<close> and \<open>temp2 = atom_pos_1dt - atom_pos_2dt\<close> of
  the three position histories at entry and \<open>temp3 = atom_pos_nm - atom_pos_0dt\<close> of
  the predicted position, summed over the \<open>3 * n_atom\<close> coordinates, \<^verbatim>\<open>FtF\<close> is
  \<open>[temp1 * temp1, temp1 * temp2, temp1 * temp2, temp2 * temp2]\<close> and \<^verbatim>\<open>Ftf\<close> is
  \<open>[temp1 * temp3, temp2 * temp3]\<close>.
\<close>

theorem elecDensExtrapolation_delectronDens:
  assumes "dmcomm_phi s \<noteq> MPI_COMM_NULL"
  shows "let s' = elecDensExtrapolation LAPACKE_dgelsd s;
             temp1 = (\<lambda>ii. atom_pos_0dt s ii - atom_pos_1dt s ii);
             temp2 = (\<lambda>ii. atom_pos_1dt s ii - atom_pos_2dt s ii);
             temp3 = (\<lambda>ii. atom_pos_nm s' ii - atom_pos_0dt s ii);
             FtF = (\<lambda>_. 0)
                     (0 := \<Sum>ii<nat (3 * n_atom s). temp1 ii * temp1 ii,
                      1 := \<Sum>ii<nat (3 * n_atom s). temp1 ii * temp2 ii,
                      2 := \<Sum>ii<nat (3 * n_atom s). temp1 ii * temp2 ii,
                      3 := \<Sum>ii<nat (3 * n_atom s). temp2 ii * temp2 ii);
             Ftf = (\<lambda>_. 0)
                     (0 := \<Sum>ii<nat (3 * n_atom s). temp1 ii * temp3 ii,
                      1 := \<Sum>ii<nat (3 * n_atom s). temp2 ii * temp3 ii);
             alpha = LAPACKE_dgelsd FtF Ftf 0;
             beta = LAPACKE_dgelsd FtF Ftf 1
         in (elecgs_Count s - StressCount s < 3 \<longrightarrow> delectronDens s' = delectronDens s)
          \<and> (elecgs_Count s - StressCount s \<ge> 3 \<longrightarrow>
               (\<forall>nd < nat (Nd_d s).
                  delectronDens s' nd =
                    (1 + alpha) * delectronDens_0dt s' nd
                    + (beta - alpha) * delectronDens_1dt s' nd
                    - beta * delectronDens_2dt s' nd))"
proof -
  let ?s' = "elecDensExtrapolation LAPACKE_dgelsd s"
  let ?p = "predict_atom_pos (for_loop (Nd_d s) shift_delectronDens s)"
  let ?n = "nat (3 * n_atom s)"
  let ?A = "(\<lambda>_. 0)
        (0 := \<Sum>ii<?n.
                (atom_pos_0dt s ii - atom_pos_1dt s ii) * (atom_pos_0dt s ii - atom_pos_1dt s ii),
         1 := \<Sum>ii<?n.
                (atom_pos_0dt s ii - atom_pos_1dt s ii) * (atom_pos_1dt s ii - atom_pos_2dt s ii),
         2 := \<Sum>ii<?n.
                (atom_pos_0dt s ii - atom_pos_1dt s ii) * (atom_pos_1dt s ii - atom_pos_2dt s ii),
         3 := \<Sum>ii<?n.
                (atom_pos_1dt s ii - atom_pos_2dt s ii) * (atom_pos_1dt s ii - atom_pos_2dt s ii))"
  let ?b = "(\<lambda>_. 0)
        (0 := \<Sum>ii<?n.
                (atom_pos_0dt s ii - atom_pos_1dt s ii) * (atom_pos_nm ?s' ii - atom_pos_0dt s ii),
         1 := \<Sum>ii<?n.
                (atom_pos_1dt s ii - atom_pos_2dt s ii) * (atom_pos_nm ?s' ii - atom_pos_0dt s ii))"
  let ?alpha = "LAPACKE_dgelsd ?A ?b 0"
  let ?beta = "LAPACKE_dgelsd ?A ?b 1"
  have n_ex: "n_atom (extrapolate LAPACKE_dgelsd ?p) = n_atom ?p"
    by (simp add: extrapolate_eq)
  have run: "?s' = for_loop (3 * n_atom ?p) shift_atom_pos
      (if 3 \<le> elecgs_Count ?p - StressCount ?p then extrapolate LAPACKE_dgelsd ?p else ?p)"
    using assms by (simp add: elecDensExtrapolation_def Let_def n_ex)
  have p: "atom_pos_0dt ?p = atom_pos_0dt s" "atom_pos_1dt ?p = atom_pos_1dt s"
    "atom_pos_2dt ?p = atom_pos_2dt s" "n_atom ?p = n_atom s"
    "elecgs_Count ?p = elecgs_Count s" "StressCount ?p = StressCount s"
    "delectronDens ?p = delectronDens s" "Nd_d ?p = Nd_d s"
    by (simp_all add: predict_atom_pos_eq for_loop_shift_delectronDens)
  have nm: "atom_pos_nm ?s' = atom_pos_nm ?p"
    unfolding run by (simp add: for_loop_shift_atom_pos extrapolate_eq)
  have FtF: "build_FtF ?p = (?A, ?b)"
    unfolding build_FtF_eq p nm FtF_updates ..
  have ex: "extrapolate LAPACKE_dgelsd ?p =
      ?p\<lparr>delectronDens := (\<lambda>j. if j < nat (Nd_d s)
          then (1 + ?alpha) * delectronDens_0dt ?p j + (?beta - ?alpha) * delectronDens_1dt ?p j
               - ?beta * delectronDens_2dt ?p j
          else delectronDens s j)\<rparr>"
    unfolding extrapolate_eq FtF fst_conv snd_conv p ..
  have small: "delectronDens ?s' = delectronDens s" if "elecgs_Count s - StressCount s < 3"
    using that unfolding run p by (simp add: for_loop_shift_atom_pos p)
  have hist: "delectronDens_0dt ?s' = delectronDens_0dt ?p"
    "delectronDens_1dt ?s' = delectronDens_1dt ?p"
    "delectronDens_2dt ?s' = delectronDens_2dt ?p"
    unfolding run by (simp_all add: for_loop_shift_atom_pos extrapolate_eq)
  have large: "delectronDens ?s' nd =
      (1 + ?alpha) * delectronDens_0dt ?s' nd + (?beta - ?alpha) * delectronDens_1dt ?s' nd
      - ?beta * delectronDens_2dt ?s' nd"
    if "3 \<le> elecgs_Count s - StressCount s" "nd < nat (Nd_d s)" for nd
  proof -
    have "delectronDens ?s' = delectronDens (extrapolate LAPACKE_dgelsd ?p)"
      unfolding run p using that(1) by (simp add: for_loop_shift_atom_pos)
    then show ?thesis
      unfolding hist ex using that(2) by simp
  qed
  show ?thesis
    unfolding Let_def using small large by blast
qed

theorem elecDensExtrapolation_delectronDens_witness:
  "dmcomm_phi pSPARC_extrapolate \<noteq> MPI_COMM_NULL
   \<and> elecgs_Count pSPARC_extrapolate - StressCount pSPARC_extrapolate \<ge> 3
   \<and> (0::nat) < nat (Nd_d pSPARC_extrapolate)
   \<and> delectronDens (elecDensExtrapolation cramer2 pSPARC_extrapolate) 0 = - 3 / 200
   \<and> dmcomm_phi pSPARC_relax \<noteq> MPI_COMM_NULL
   \<and> elecgs_Count pSPARC_relax - StressCount pSPARC_relax < 3
   \<and> delectronDens (elecDensExtrapolation cramer2 pSPARC_relax) = delectronDens pSPARC_relax"
proof -
  have sums: "{..<nat (3 * 1)} = {0, Suc 0, 2}"
    by (auto simp: lessThan_nat_numeral lessThan_Suc)
  have "delectronDens (elecDensExtrapolation cramer2 pSPARC_extrapolate) 0 = - 3 / 200"
    using elecDensExtrapolation_delectronDens [OF pSPARC_extrapolate_facts(1), of cramer2]
    unfolding Let_def pSPARC_extrapolate_facts sums
    by (simp add: pSPARC_extrapolate_positions cramer2_extrapolate pSPARC_extrapolate_history)
  moreover have "delectronDens (elecDensExtrapolation cramer2 pSPARC_relax)
      = delectronDens pSPARC_relax"
    using elecDensExtrapolation_delectronDens [OF pSPARC_relax_facts(1), of cramer2]
    unfolding Let_def pSPARC_relax_facts
    by simp
  ultimately show ?thesis
    by (simp add: pSPARC_extrapolate_facts pSPARC_relax_facts)
qed


section \<open>Properties of Init\_electronDensity\<close>

subsection \<open>The loops in closed form\<close>

lemma fold_charge_extrapolation:
  "fold charge_extrapolation [0..<k] s =
     s\<lparr>electronDens := (\<lambda>j. if j < k
          then (if electronDens_at s j + delectronDens s j < 0 then xc_rhotol s
                else electronDens_at s j + delectronDens s j)
          else electronDens s j)\<rparr>"
proof (induction k)
  case 0
  show ?case by simp
next
  case (Suc k)
  show ?case
    unfolding fold_upt_Suc Suc.IH
    by (simp add: charge_extrapolation_def Let_def upd_prefix [symmetric] fun_upd_same
          del: fun_upd_apply)
qed

lemma fold_scale_density:
  "fold (scale_density v) [0..<k] s =
     s\<lparr>electronDens := (\<lambda>j. if j < k then electronDens s j * v else electronDens s j)\<rparr>"
proof (induction k)
  case 0
  show ?case by simp
next
  case (Suc k)
  show ?case
    unfolding fold_upt_Suc Suc.IH
    by (simp add: scale_density_def upd_prefix [symmetric] del: fun_upd_apply)
qed

lemma fold_sum: "fold (\<lambda>i acc. acc + f i) [0..<k] (a::real) = a + (\<Sum>i<k. f i)"
  by (induction k) simp_all

lemma int_rho_local_eq:
  "int_rho_local s =
     (if CyclixFlag s \<noteq> 0 then (\<Sum>i<nat (Nd_d s). electronDens s i * Intgwt_phi s i)
      else (\<Sum>i<nat (Nd_d s). electronDens s i) * dV s)"
  by (simp add: int_rho_local_def for_loop_def fold_sum)

lemma fold_resolve_spin:
  "k \<le> nat n \<Longrightarrow>
   fold (resolve_spin n) [0..<k] s =
     s\<lparr>electronDens := (\<lambda>j.
        if nat n \<le> j \<and> j < nat n + k then (electronDens s (j - nat n) + mag s (j - nat n)) / 2
        else if 2 * nat n \<le> j \<and> j < 2 * nat n + k
          then (electronDens s (j - 2 * nat n) - mag s (j - 2 * nat n)) / 2
        else electronDens s j)\<rparr>"
proof (induction k)
  case 0
  have "(\<lambda>j. if nat n \<le> j \<and> j < nat n + 0
            then (electronDens s (j - nat n) + mag s (j - nat n)) / 2
          else if 2 * nat n \<le> j \<and> j < 2 * nat n + 0
            then (electronDens s (j - 2 * nat n) - mag s (j - 2 * nat n)) / 2
          else electronDens s j) = electronDens s"
    by (auto simp: fun_eq_iff)
  then show ?case by simp
next
  case (Suc k)
  let ?F = "\<lambda>k j.
        if nat n \<le> j \<and> j < nat n + k then (electronDens s (j - nat n) + mag s (j - nat n)) / 2
        else if 2 * nat n \<le> j \<and> j < 2 * nat n + k
          then (electronDens s (j - 2 * nat n) - mag s (j - 2 * nat n)) / 2
        else electronDens s j"
  from Suc.prems have k: "k < nat n" "k \<le> nat n" by simp_all
  have i1: "nat (n + int k) = nat n + k" and i2: "nat (2 * n + int k) = 2 * nat n + k"
    using k by linarith+
  have step: "resolve_spin n k (s\<lparr>electronDens := ?F k\<rparr>) =
      s\<lparr>electronDens := (?F k)
          (nat n + k := (electronDens s k + mag s k) / 2,
           2 * nat n + k := (electronDens s k - mag s k) / 2)\<rparr>"
    using k(1) by (simp add: resolve_spin_def Let_def i1 i2)
  have ext: "(?F k)
          (nat n + k := (electronDens s k + mag s k) / 2,
           2 * nat n + k := (electronDens s k - mag s k) / 2) = ?F (Suc k)"
    using k(1) by (auto simp: fun_eq_iff)
  show ?case
    unfolding fold_upt_Suc Suc.IH [OF k(2)] step ext ..
qed

lemma for_loop_resolve_spin:
  "for_loop n (resolve_spin n) s =
     s\<lparr>electronDens := (\<lambda>j.
        if nat n \<le> j \<and> j < 2 * nat n then (electronDens s (j - nat n) + mag s (j - nat n)) / 2
        else if 2 * nat n \<le> j \<and> j < 3 * nat n
          then (electronDens s (j - 2 * nat n) - mag s (j - 2 * nat n)) / 2
        else electronDens s j)\<rparr>"
proof -
  have "(\<lambda>j. if nat n \<le> j \<and> j < nat n + nat n
          then (electronDens s (j - nat n) + mag s (j - nat n)) / 2
        else if 2 * nat n \<le> j \<and> j < 2 * nat n + nat n
          then (electronDens s (j - 2 * nat n) - mag s (j - 2 * nat n)) / 2
        else electronDens s j)
      = (\<lambda>j. if nat n \<le> j \<and> j < 2 * nat n
          then (electronDens s (j - nat n) + mag s (j - nat n)) / 2
        else if 2 * nat n \<le> j \<and> j < 3 * nat n
          then (electronDens s (j - 2 * nat n) - mag s (j - 2 * nat n)) / 2
        else electronDens s j)"
    by (auto simp: fun_eq_iff)
  then show ?thesis
    unfolding for_loop_def by (simp add: fold_resolve_spin)
qed

lemma for_loop_scale_density:
  "for_loop n (scale_density v) s =
     s\<lparr>electronDens := (\<lambda>j. if j < nat n then electronDens s j * v else electronDens s j)\<rparr>"
  unfolding for_loop_def by (rule fold_scale_density)

lemma stage_density_eq:
  "stage_density s =
     (if elecgs_Count s - StressCount s \<ge> 3 \<and> (MDFlag s = 1 \<or> RelaxFlag s = 1)
      then s\<lparr>electronDens := (\<lambda>j. if j < nat (Nd_d s)
          then (if electronDens_at s j + delectronDens s j < 0 then xc_rhotol s
                else electronDens_at s j + delectronDens s j)
          else electronDens s j)\<rparr>
      else s)"
  unfolding stage_density_def for_loop_def fold_charge_extrapolation ..

lemma stage_density_frame:
  "stage_density s = s\<lparr>electronDens := electronDens (stage_density s)\<rparr>"
  unfolding stage_density_eq by simp

lemma stage_density_fields:
  "Nd_d (stage_density s) = Nd_d s"
  "PosCharge (stage_density s) = PosCharge s"
  "spin_typ (stage_density s) = spin_typ s"
  "mag (stage_density s) = mag s"
  "CyclixFlag (stage_density s) = CyclixFlag s"
  "Intgwt_phi (stage_density s) = Intgwt_phi s"
  "dV (stage_density s) = dV s"
  unfolding stage_density_eq by simp_all

text \<open>The state that a call on a later step returns.\<close>

lemma Init_electronDensity_later:
  assumes "dmcomm_phi s \<noteq> MPI_COMM_NULL" and "elecgs_Count s - StressCount s \<noteq> 0"
    and "MPI_Allreduce_SUM (int_rho_local (stage_density s)) others \<noteq> 0"
  shows "Init_electronDensity M others s =
     Some (let s1 = stage_density s;
               vscal = PosCharge s / MPI_Allreduce_SUM (int_rho_local s1) others;
               s2 = for_loop (Nd_d s) (scale_density vscal) s1
           in if spin_typ s \<noteq> 0 then for_loop (Nd_d s) (resolve_spin (Nd_d s)) s2 else s2)"
  using assms
  by (simp add: Init_electronDensity_def Let_def for_loop_scale_density stage_density_fields)

lemma int_rho_local_volume_integral: "int_rho_local s = volume_integral s"
  by (simp add: int_rho_local_eq volume_integral_def integration_weight_def sum_distrib_right)

lemma electronDens_update_frame:
  "t = s\<lparr>electronDens := e\<rparr> \<Longrightarrow> t\<lparr>electronDens := f\<rparr> = s\<lparr>electronDens := f\<rparr>"
  by simp

lemma Init_electronDensity_electronDens:
  assumes "dmcomm_phi s \<noteq> MPI_COMM_NULL" and "elecgs_Count s - StressCount s \<noteq> 0"
    and "MPI_Allreduce_SUM (int_rho_local (stage_density s)) others \<noteq> 0"
  shows "Init_electronDensity M others s =
     Some (s\<lparr>electronDens := (\<lambda>j.
        let n = nat (Nd_d s);
            vscal = PosCharge s / MPI_Allreduce_SUM (int_rho_local (stage_density s)) others;
            total = (\<lambda>i. electronDens (stage_density s) i * vscal)
        in if j < n then total j
           else if spin_typ s = 0 then electronDens s j
           else if j < 2 * n then (total (j - n) + mag s (j - n)) / 2
           else if j < 3 * n then (total (j - 2 * n) - mag s (j - 2 * n)) / 2
           else electronDens s j)\<rparr>)"
proof -
  let ?v = "PosCharge s / MPI_Allreduce_SUM (int_rho_local (stage_density s)) others"
  let ?e1 = "electronDens (stage_density s)"
  have out: "?e1 j = electronDens s j" if "nat (Nd_d s) \<le> j" for j
    using that by (simp add: stage_density_eq)
  let ?s2 = "s\<lparr>electronDens := (\<lambda>j. if j < nat (Nd_d s) then ?e1 j * ?v else ?e1 j)\<rparr>"
  have s2: "for_loop (Nd_d s) (scale_density ?v) (stage_density s) = ?s2"
    unfolding for_loop_scale_density stage_density_fields
    by (rule electronDens_update_frame [OF stage_density_frame])
  have "Init_electronDensity M others s =
      Some (if spin_typ s \<noteq> 0 then for_loop (Nd_d s) (resolve_spin (Nd_d s)) ?s2 else ?s2)"
    unfolding Init_electronDensity_later [OF assms] Let_def s2 ..
  also have "(if spin_typ s \<noteq> 0 then for_loop (Nd_d s) (resolve_spin (Nd_d s)) ?s2 else ?s2)
      = s\<lparr>electronDens := (\<lambda>j.
        let n = nat (Nd_d s);
            vscal = ?v;
            total = (\<lambda>i. ?e1 i * vscal)
        in if j < n then total j
           else if spin_typ s = 0 then electronDens s j
           else if j < 2 * n then (total (j - n) + mag s (j - n)) / 2
           else if j < 3 * n then (total (j - 2 * n) - mag s (j - 2 * n)) / 2
           else electronDens s j)\<rparr>"
    by (auto simp add: for_loop_resolve_spin Let_def fun_eq_iff out
          intro!: arg_cong [where f = "\<lambda>e. s\<lparr>electronDens := e\<rparr>"])
  finally show ?thesis .
qed

subsection \<open>The floor of the extrapolated density\<close>

text \<open>
  Claim C3 as it is stated, with \<^verbatim>\<open>xc_rhotol\<close> as the floor, fails: the test of line 79
  is \<^verbatim>\<open>electronDens[i] < 0.0\<close>, and a value between zero and \<^verbatim>\<open>xc_rhotol\<close> stays. Here
  \<^verbatim>\<open>xc_rhotol\<close> is \<open>10^-14\<close>, the reference density of the second node is \<open>10^-15\<close> and its
  deviation zero: the staged density of the node is \<open>10^-15\<close>, and so is the density
  that \<^verbatim>\<open>Init_electronDensity\<close> returns (the integral is 1 and the target charge 1).
\<close>


theorem stage_density_floor_counterexample:
  "3 \<le> elecgs_Count pSPARC_tiny - StressCount pSPARC_tiny \<and> MDFlag pSPARC_tiny = 1
   \<and> 1 < nat (Nd_d pSPARC_tiny)
   \<and> xc_rhotol pSPARC_tiny = 1 / 10 ^ 14
   \<and> electronDens (stage_density pSPARC_tiny) 1 = 1 / 10 ^ 15
   \<and> \<not> xc_rhotol pSPARC_tiny \<le> electronDens (stage_density pSPARC_tiny) 1
   \<and> electronDens_of (Init_electronDensity Magnorm_example [] pSPARC_tiny) 1
       = Some (1 / 10 ^ 15)"
proof -
  have h: "dmcomm_phi pSPARC_tiny \<noteq> MPI_COMM_NULL"
    "elecgs_Count pSPARC_tiny - StressCount pSPARC_tiny \<noteq> 0"
    "Nd_d pSPARC_tiny = 2" "PosCharge pSPARC_tiny = 1" "spin_typ pSPARC_tiny = 0"
    by (simp_all add: pSPARC_tiny_def pSPARC0_def)
  have staged: "electronDens (stage_density pSPARC_tiny) 1 = 1 / 10 ^ 15"
    by (simp add: stage_density_eq pSPARC_tiny_def pSPARC0_def)
  have r: "MPI_Allreduce_SUM (int_rho_local (stage_density pSPARC_tiny)) [] = 1"
    by (simp add: MPI_Allreduce_SUM_def int_rho_local_eq stage_density_eq pSPARC_tiny_def
          pSPARC0_def lessThan_nat_numeral lessThan_Suc)
  then have r0: "MPI_Allreduce_SUM (int_rho_local (stage_density pSPARC_tiny)) [] \<noteq> 0"
    by simp
  have "electronDens_of (Init_electronDensity Magnorm_example [] pSPARC_tiny) 1
      = Some (1 / 10 ^ 15)"
    unfolding Init_electronDensity_electronDens [OF h(1,2) r0] r
    using staged by (simp add: electronDens_of_def Let_def h)
  then show ?thesis
    using staged by (simp add: pSPARC_tiny_def pSPARC0_def)
qed

text \<open>
  Claim C3, amended. After the extrapolated deviation is applied
  (\<^verbatim>\<open>elecgs_Count - StressCount >= 3\<close> in MD or relaxation mode), every entry \<open>i\<close> of the
  total-density channel is \<^verbatim>\<open>electronDens_at[i] + delectronDens[i]\<close> if this sum is not
  negative, and exactly \<^verbatim>\<open>xc_rhotol\<close> if it is negative; so no entry is below zero when
  \<^verbatim>\<open>xc_rhotol\<close> is not negative. The floor that holds is zero, not \<^verbatim>\<open>xc_rhotol\<close>.
\<close>

theorem stage_density_floor:
  assumes "3 \<le> elecgs_Count s - StressCount s" and "MDFlag s = 1 \<or> RelaxFlag s = 1"
    and "i < nat (Nd_d s)"
  shows "electronDens (stage_density s) i =
           (if electronDens_at s i + delectronDens s i < 0 then xc_rhotol s
            else electronDens_at s i + delectronDens s i)
       \<and> (0 \<le> xc_rhotol s \<longrightarrow> 0 \<le> electronDens (stage_density s) i)"
  using assms by (simp add: stage_density_eq)

theorem stage_density_floor_witness:
  "3 \<le> elecgs_Count pSPARC_negative - StressCount pSPARC_negative
   \<and> (MDFlag pSPARC_negative = 1 \<or> RelaxFlag pSPARC_negative = 1)
   \<and> 0 < nat (Nd_d pSPARC_negative)
   \<and> electronDens_at pSPARC_negative 0 + delectronDens pSPARC_negative 0 < 0
   \<and> 0 \<le> xc_rhotol pSPARC_negative
   \<and> electronDens (stage_density pSPARC_negative) 0 = 1 / 10 ^ 14"
  using stage_density_floor [of pSPARC_negative 0]
  by (simp add: pSPARC_negative_def pSPARC0_def)

subsection \<open>The spin channels\<close>



subsection \<open>What a later step writes\<close>

text \<open>
  Claim C9. A call with \<^verbatim>\<open>elecgs_Count - StressCount > 0\<close> on a participating process
  returns the context object with a new \<^verbatim>\<open>electronDens\<close> and nothing else changed (the
  magnetization, the reference density, the pending deviation, the histories and the
  positions are as before); \<^verbatim>\<open>electronDens\<close> is unchanged from \<open>3 * Nd_d\<close> on, and from
  \<open>Nd_d\<close> on without spin. When neither \<^verbatim>\<open>MDFlag\<close> nor \<^verbatim>\<open>RelaxFlag\<close> is 1 the pending
  deviation is not applied: the total channel is the old one times
  \<^verbatim>\<open>PosCharge / int_rho\<close>.
\<close>

theorem Init_electronDensity_frame:
  assumes "dmcomm_phi s \<noteq> MPI_COMM_NULL" and "0 < elecgs_Count s - StressCount s"
    and "MPI_Allreduce_SUM (int_rho_local (stage_density s)) others \<noteq> 0"
  shows "\<exists>e'. Init_electronDensity M others s = Some (s\<lparr>electronDens := e'\<rparr>)
           \<and> (\<forall>j\<ge>3 * nat (Nd_d s). e' j = electronDens s j)
           \<and> (spin_typ s = 0 \<longrightarrow> (\<forall>j\<ge>nat (Nd_d s). e' j = electronDens s j))
           \<and> (MDFlag s \<noteq> 1 \<and> RelaxFlag s \<noteq> 1 \<longrightarrow>
                (\<forall>j<nat (Nd_d s). e' j =
                   electronDens s j * (PosCharge s / MPI_Allreduce_SUM (int_rho_local s) others)))"
proof -
  have nz: "elecgs_Count s - StressCount s \<noteq> 0" using assms(2) by simp
  have st: "stage_density s = s" if "MDFlag s \<noteq> 1 \<and> RelaxFlag s \<noteq> 1"
    using that by (simp add: stage_density_def)
  show ?thesis
    unfolding Init_electronDensity_electronDens [OF assms(1) nz assms(3)]
    by (rule exI, rule conjI, rule refl) (auto simp add: Let_def st)
qed

theorem Init_electronDensity_frame_witness:
  "dmcomm_phi pSPARC_scenario \<noteq> MPI_COMM_NULL
   \<and> 0 < elecgs_Count pSPARC_scenario - StressCount pSPARC_scenario
   \<and> MPI_Allreduce_SUM (int_rho_local (stage_density pSPARC_scenario)) [] \<noteq> 0
   \<and> spin_typ pSPARC_scenario = 0
   \<and> MDFlag pSPARC_scenario \<noteq> 1 \<and> RelaxFlag pSPARC_scenario \<noteq> 1
   \<and> (\<exists>e'. Init_electronDensity Magnorm_example [] pSPARC_scenario
              = Some (pSPARC_scenario\<lparr>electronDens := e'\<rparr>)
          \<and> e' 0 = 2 / 10 \<and> e' 1 = 4 / 10 \<and> e' 2 = 6 / 10 \<and> e' 3 = 8 / 10 \<and> e' 4 = 0)"
proof -
  have h: "dmcomm_phi pSPARC_scenario \<noteq> MPI_COMM_NULL"
    "0 < elecgs_Count pSPARC_scenario - StressCount pSPARC_scenario"
    "spin_typ pSPARC_scenario = 0"
    "MDFlag pSPARC_scenario \<noteq> 1 \<and> RelaxFlag pSPARC_scenario \<noteq> 1"
    "stage_density pSPARC_scenario = pSPARC_scenario"
    by (simp_all add: stage_density_def pSPARC_scenario_def pSPARC0_def)
  have v: "Nd_d pSPARC_scenario = 4" "PosCharge pSPARC_scenario = 2"
    "electronDens pSPARC_scenario 0 = 1 / 10" "electronDens pSPARC_scenario 1 = 2 / 10"
    "electronDens pSPARC_scenario 2 = 3 / 10" "electronDens pSPARC_scenario 3 = 4 / 10"
    "electronDens pSPARC_scenario 4 = 0"
    by (simp_all add: pSPARC_scenario_def pSPARC0_def)
  have r: "MPI_Allreduce_SUM (int_rho_local pSPARC_scenario) [] = 1"
    by (simp add: MPI_Allreduce_SUM_def int_rho_local_eq pSPARC_scenario_def pSPARC0_def
          lessThan_nat_numeral lessThan_Suc)
  have r0: "MPI_Allreduce_SUM (int_rho_local (stage_density pSPARC_scenario)) [] \<noteq> 0"
    unfolding h(5) r by simp
  from Init_electronDensity_frame [OF h(1,2) r0, of Magnorm_example]
  obtain e' where e':
    "Init_electronDensity Magnorm_example [] pSPARC_scenario = Some (pSPARC_scenario\<lparr>electronDens := e'\<rparr>)"
    "spin_typ pSPARC_scenario = 0 \<longrightarrow> (\<forall>j\<ge>nat (Nd_d pSPARC_scenario). e' j = electronDens pSPARC_scenario j)"
    "MDFlag pSPARC_scenario \<noteq> 1 \<and> RelaxFlag pSPARC_scenario \<noteq> 1 \<longrightarrow>
       (\<forall>j<nat (Nd_d pSPARC_scenario). e' j =
          electronDens pSPARC_scenario j
            * (PosCharge pSPARC_scenario / MPI_Allreduce_SUM (int_rho_local pSPARC_scenario) []))"
    by blast
  have "e' 4 = 0" using e'(2) h(3) by (simp add: v)
  moreover have scaled: "j < 4 \<Longrightarrow> e' j = electronDens pSPARC_scenario j * 2" for j
    using e'(3) h(4) unfolding r by (simp add: v)
  have "e' 0 = 2 / 10 \<and> e' 1 = 4 / 10 \<and> e' 2 = 6 / 10 \<and> e' 3 = 8 / 10"
    using scaled [of 0] scaled [of 1] scaled [of 2] scaled [of 3] v by simp
  ultimately show ?thesis
    using h(1-4) r0 e'(1) by blast
qed

subsection \<open>The integrated charge\<close>

lemma Init_electronDensity_integral:
  assumes "dmcomm_phi s \<noteq> MPI_COMM_NULL" and "elecgs_Count s - StressCount s \<noteq> 0"
    and "MPI_Allreduce_SUM (int_rho_local (stage_density s)) others \<noteq> 0"
  shows "\<exists>s'. Init_electronDensity M others s = Some s' \<and>
           volume_integral s' =
             int_rho_local (stage_density s)
               * (PosCharge s / MPI_Allreduce_SUM (int_rho_local (stage_density s)) others)"
  unfolding Init_electronDensity_electronDens [OF assms]
  by (simp add: volume_integral_def integration_weight_def Let_def int_rho_local_eq
        stage_density_fields sum_distrib_left sum_divide_distrib mult_ac)

lemma MPI_Allreduce_SUM_others_of:
  assumes "r < length cs"
  shows "MPI_Allreduce_SUM (cs ! r) (others_of r cs) = sum_list cs"
proof -
  have "sum_list cs = sum_list (take r cs @ cs ! r # drop (Suc r) cs)"
    using id_take_nth_drop [OF assms] by simp
  then show ?thesis
    by (simp add: MPI_Allreduce_SUM_def others_of_def)
qed

lemma those_map_Some:
  "(\<And>x. x \<in> set xs \<Longrightarrow> f x = Some (g x)) \<Longrightarrow> those (map f xs) = Some (map g xs)"
  by (induction xs) simp_all

text \<open>
  Claim C2. On a step beyond the first, when every process of the \<^verbatim>\<open>dmcomm_phi\<close> group
  has run \<^verbatim>\<open>Init_electronDensity\<close> with the same target charge \<^verbatim>\<open>PosCharge\<close> and the
  reduced integral before the scaling is not zero, the volume integral of the
  total-density channel, summed over the processes of the group, is \<^verbatim>\<open>PosCharge\<close>
  (exact arithmetic).
\<close>

theorem Init_electronDensity_group_charge:
  assumes ranks: "\<forall>p\<in>set ps. dmcomm_phi p \<noteq> MPI_COMM_NULL
                    \<and> 0 < elecgs_Count p - StressCount p \<and> PosCharge p = Q"
    and nonzero: "sum_list (contributions ps) \<noteq> 0"
  shows "\<exists>ps'. Init_electronDensity_group M ps = Some ps'
           \<and> length ps' = length ps
           \<and> sum_list (map volume_integral ps') = Q"
proof -
  let ?cs = "contributions ps"
  let ?T = "sum_list ?cs"
  let ?f = "\<lambda>r. Init_electronDensity M (others_of r ?cs) (ps ! r)"
  let ?g = "\<lambda>r. the (?f r)"
  have len: "length ?cs = length ps" by (simp add: contributions_def)
  have rank: "?f r = Some (?g r) \<and> volume_integral (?g r) = ?cs ! r * (Q / ?T)"
    if r: "r < length ps" for r
  proof -
    have p: "dmcomm_phi (ps ! r) \<noteq> MPI_COMM_NULL"
      "elecgs_Count (ps ! r) - StressCount (ps ! r) \<noteq> 0" "PosCharge (ps ! r) = Q"
      using ranks [rule_format, OF nth_mem [OF r]] by simp_all
    have c: "int_rho_local (stage_density (ps ! r)) = ?cs ! r"
      using r by (simp add: contributions_def)
    have T: "MPI_Allreduce_SUM (?cs ! r) (others_of r ?cs) = ?T"
      using r len by (simp add: MPI_Allreduce_SUM_others_of)
    from Init_electronDensity_integral [OF p(1,2), of "others_of r ?cs" M] nonzero
    show ?thesis unfolding c T p(3) by auto
  qed
  have "those (map ?f [0..<length ps]) = Some (map ?g [0..<length ps])"
    by (rule those_map_Some) (rule rank [THEN conjunct1], simp)
  then have run: "Init_electronDensity_group M ps = Some (map ?g [0..<length ps])"
    by (simp add: Init_electronDensity_group_def)
  have "sum_list (map volume_integral (map ?g [0..<length ps]))
      = (\<Sum>r\<leftarrow>[0..<length ps]. ?cs ! r * (Q / ?T))"
    unfolding map_map
    by (rule arg_cong [where f = sum_list], rule map_cong)
       (simp_all add: rank [THEN conjunct2])
  also have "\<dots> = (\<Sum>r\<leftarrow>[0..<length ?cs]. ?cs ! r) * (Q / ?T)"
    unfolding len by (rule sum_list_mult_const)
  also have "\<dots> = ?T * (Q / ?T)"
    by (simp only: map_nth)
  also have "\<dots> = Q" using nonzero by simp
  finally show ?thesis using run by simp
qed

theorem Init_electronDensity_group_charge_witness:
  "dmcomm_phi pSPARC_scenario \<noteq> MPI_COMM_NULL
   \<and> 0 < elecgs_Count pSPARC_scenario - StressCount pSPARC_scenario
   \<and> PosCharge pSPARC_scenario = 2
   \<and> dmcomm_phi pSPARC_spin \<noteq> MPI_COMM_NULL
   \<and> 0 < elecgs_Count pSPARC_spin - StressCount pSPARC_spin
   \<and> PosCharge pSPARC_spin = 2
   \<and> sum_list (contributions [pSPARC_scenario, pSPARC_spin]) = 2
   \<and> (\<exists>ps'. Init_electronDensity_group Magnorm_example [pSPARC_scenario, pSPARC_spin] = Some ps'
          \<and> length ps' = 2 \<and> sum_list (map volume_integral ps') = 2)"
proof -
  have h: "\<forall>p\<in>set [pSPARC_scenario, pSPARC_spin]. dmcomm_phi p \<noteq> MPI_COMM_NULL
        \<and> 0 < elecgs_Count p - StressCount p \<and> PosCharge p = 2"
    by (simp add: pSPARC_scenario_def pSPARC_spin_def pSPARC0_def)
  have c: "sum_list (contributions [pSPARC_scenario, pSPARC_spin]) = 2"
    by (simp add: contributions_def int_rho_local_eq stage_density_eq pSPARC_scenario_def
          pSPARC_spin_def pSPARC0_def lessThan_nat_numeral lessThan_Suc)
  then have nz: "sum_list (contributions [pSPARC_scenario, pSPARC_spin]) \<noteq> 0" by simp
  show ?thesis
    using h c Init_electronDensity_group_charge [OF h nz, of Magnorm_example]
    by (simp add: numeral_2_eq_2)
qed


section \<open>Properties of Init\_orbital\<close>

lemma for_loop_1: "for_loop 1 body s = body 0 s"
  by (simp add: for_loop_def)

lemma for_loop_2: "for_loop 2 body s = body 1 (body 0 s)"
  by (simp add: for_loop_def numeral_2_eq_2)

subsection \<open>The initial orbitals of the k-points\<close>

text \<open>
  Claim C4: every k-point receives the same initial orbital pattern. The comment at
  line 264 says so (all k-points are forced to have the same initial orbitals), the
  code does not do it. In the seeded mode the code hands the generator the offset
  \<^verbatim>\<open>kg * size_kg + ng * Ndsp + spinorg * Nd\<close>, which differs from k-point to k-point,
  and copies nothing from one k-point to another: with two k-points, one band, one
  spinor and one node, the coefficient of the first k-point is the value of the
  generator at the global index 0 and the coefficient of the second one its value at
  the global index 1, here \<open>-1/2\<close> and \<open>-1/4\<close>.
\<close>

theorem Init_orbital_kpoints_differ:
  "Xorb_kpt_of (Init_orbital tools_example (0, pSPARC_kpt)) 0 = Some (- 1 / 2)
   \<and> Xorb_kpt_of (Init_orbital tools_example (0, pSPARC_kpt)) 1 = Some (- 1 / 4)"
  by (simp add: Xorb_kpt_of_def Init_orbital_def malloc_def fill_Xorb_kpt_def
        SeededRandVec_complex_def write_at_def tools_example_def pSPARC_kpt_def pSPARC0_def
        for_loop_1 for_loop_2 Let_def)

subsection \<open>Allocation\<close>

lemma pSPARC_kpt_facts:
  "dmcomm pSPARC_kpt \<noteq> MPI_COMM_NULL" "elecgs_Count pSPARC_kpt = 0"
  "isGammaPoint pSPARC_kpt = 0"
  "Nd_d_dmcomm pSPARC_kpt = 1" "Nspinor_spincomm pSPARC_kpt = 1"
  "Nband_bandcomm pSPARC_kpt = 1" "Nkpts_kptcomm pSPARC_kpt = 2"
  by (simp_all add: pSPARC_kpt_def pSPARC0_def)

lemma pSPARC_gamma_facts:
  "dmcomm pSPARC_gamma \<noteq> MPI_COMM_NULL" "elecgs_Count pSPARC_gamma = 0"
  "isGammaPoint pSPARC_gamma = 1"
  "Nd_d_dmcomm pSPARC_gamma = 1" "Nspinor_spincomm pSPARC_gamma = 1"
  "Nband_bandcomm pSPARC_gamma = 1" "Nkpts_kptcomm pSPARC_gamma = 1"
  by (simp_all add: pSPARC_gamma_def pSPARC_kpt_def pSPARC0_def)

lemma tools_example_malloc:
  "malloc_double tools_example h 1 = Some (\<lambda>_. 0)"
  "malloc_complex tools_example h 1 = Some (\<lambda>_. 0)"
  "malloc_complex tools_example h 2 = Some (\<lambda>_. 0)"
  by (simp_all add: tools_example_def)

lemma tools_no_memory_malloc:
  "malloc_double tools_no_memory h n = None"
  "malloc_complex tools_no_memory 0 n = Some (\<lambda>_. 0)"
  "malloc_complex tools_no_memory (Suc h) n = None"
  by (simp_all add: tools_no_memory_def tools_example_def)

text \<open>
  Claim C7. On a participating process \<^verbatim>\<open>Init_orbital\<close> allocates if and only if
  \<^verbatim>\<open>elecgs_Count == 0\<close>. With \<^verbatim>\<open>elecgs_Count != 0\<close> the heap and the context object are
  returned as they were: no allocation, no write to the orbital arrays. With
  \<^verbatim>\<open>elecgs_Count == 0\<close> the allocator is asked for \<^verbatim>\<open>len_tot\<close> and then for \<^verbatim>\<open>size_k\<close>
  elements (of doubles at the gamma point, of complex numbers otherwise); when both
  calls succeed, the call returns with two blocks more on the heap, the first one,
  filled with the random orbitals, in \<^verbatim>\<open>Xorb\<close> (\<^verbatim>\<open>Xorb_kpt\<close>) and the second one in \<^verbatim>\<open>Yorb\<close>
  (\<^verbatim>\<open>Yorb_kpt\<close>), and nothing else changed; when one of them fails, the process ends with
  the allocation failure.
\<close>

theorem Init_orbital_allocation:
  assumes "dmcomm s \<noteq> MPI_COMM_NULL"
  shows "let size_k = Nd_d_dmcomm s * Nspinor_spincomm s * Nband_bandcomm s;
             len_tot = size_k * Nkpts_kptcomm s
         in (elecgs_Count s \<noteq> 0 \<longrightarrow> Init_orbital t (h, s) = Inr (h, s))
          \<and> (elecgs_Count s = 0 \<and> isGammaPoint s \<noteq> 0 \<longrightarrow>
               (\<forall>X Y. malloc_double t h len_tot = Some X
                      \<and> malloc_double t (h + 1) size_k = Some Y \<longrightarrow>
                  Init_orbital t (h, s) =
                    Inr (h + 2,
                         s\<lparr>Xorb := Some (fill_Xorb t (s\<lparr>Xorb := Some X, Yorb := Some Y\<rparr>) X),
                           Yorb := Some Y\<rparr>))
               \<and> (malloc_double t h len_tot = None
                    \<or> malloc_double t (h + 1) size_k = None \<longrightarrow>
                  Init_orbital t (h, s) = Inl Memory_allocation_failed))
          \<and> (elecgs_Count s = 0 \<and> isGammaPoint s = 0 \<longrightarrow>
               (\<forall>X Y. malloc_complex t h len_tot = Some X
                      \<and> malloc_complex t (h + 1) size_k = Some Y \<longrightarrow>
                  Init_orbital t (h, s) =
                    Inr (h + 2,
                         s\<lparr>Xorb_kpt :=
                             Some (fill_Xorb_kpt t (s\<lparr>Xorb_kpt := Some X, Yorb_kpt := Some Y\<rparr>) X),
                           Yorb_kpt := Some Y\<rparr>))
               \<and> (malloc_complex t h len_tot = None
                    \<or> malloc_complex t (h + 1) size_k = None \<longrightarrow>
                  Init_orbital t (h, s) = Inl Memory_allocation_failed))"
  using assms
  by (auto simp add: Init_orbital_def malloc_def Let_def split: option.splits)

theorem Init_orbital_allocation_witness:
  "dmcomm pSPARC_kpt \<noteq> MPI_COMM_NULL \<and> elecgs_Count pSPARC_kpt = 0
   \<and> isGammaPoint pSPARC_kpt = 0
   \<and> (\<exists>s'. Init_orbital tools_example (0, pSPARC_kpt) = Inr (2, s')
          \<and> Xorb_kpt s' \<noteq> None \<and> Yorb_kpt s' = Some (\<lambda>_. 0)
          \<and> Xorb s' = None \<and> Yorb s' = None)
   \<and> Init_orbital tools_no_memory (0, pSPARC_kpt) = Inl Memory_allocation_failed
   \<and> dmcomm pSPARC_gamma \<noteq> MPI_COMM_NULL \<and> elecgs_Count pSPARC_gamma = 0
   \<and> isGammaPoint pSPARC_gamma \<noteq> 0
   \<and> (\<exists>s'. Init_orbital tools_example (5, pSPARC_gamma) = Inr (7, s')
          \<and> Xorb s' \<noteq> None \<and> Yorb s' = Some (\<lambda>_. 0)
          \<and> Xorb_kpt s' = None \<and> Yorb_kpt s' = None)
   \<and> Init_orbital tools_no_memory (0, pSPARC_gamma) = Inl Memory_allocation_failed
   \<and> dmcomm (pSPARC_kpt\<lparr>elecgs_Count := 1\<rparr>) \<noteq> MPI_COMM_NULL
   \<and> elecgs_Count (pSPARC_kpt\<lparr>elecgs_Count := 1\<rparr>) \<noteq> 0
   \<and> Init_orbital tools_example (2, pSPARC_kpt\<lparr>elecgs_Count := 1\<rparr>)
       = Inr (2, pSPARC_kpt\<lparr>elecgs_Count := 1\<rparr>)"
proof -
  have none: "Xorb pSPARC_kpt = None" "Yorb pSPARC_kpt = None"
    "Xorb_kpt pSPARC_gamma = None" "Yorb_kpt pSPARC_gamma = None"
    by (simp_all add: pSPARC_gamma_def pSPARC_kpt_def pSPARC0_def)
  have k: "\<exists>s'. Init_orbital tools_example (0, pSPARC_kpt) = Inr (2, s')
          \<and> Xorb_kpt s' \<noteq> None \<and> Yorb_kpt s' = Some (\<lambda>_. 0)
          \<and> Xorb s' = None \<and> Yorb s' = None"
    using Init_orbital_allocation [OF pSPARC_kpt_facts(1), of tools_example 0]
    by (simp add: Let_def pSPARC_kpt_facts tools_example_malloc none)
  have kf: "Init_orbital tools_no_memory (0, pSPARC_kpt) = Inl Memory_allocation_failed"
    using Init_orbital_allocation [OF pSPARC_kpt_facts(1), of tools_no_memory 0]
    by (simp add: Let_def pSPARC_kpt_facts tools_no_memory_malloc)
  have g: "\<exists>s'. Init_orbital tools_example (5, pSPARC_gamma) = Inr (7, s')
          \<and> Xorb s' \<noteq> None \<and> Yorb s' = Some (\<lambda>_. 0)
          \<and> Xorb_kpt s' = None \<and> Yorb_kpt s' = None"
    using Init_orbital_allocation [OF pSPARC_gamma_facts(1), of tools_example 5]
    by (simp add: Let_def pSPARC_gamma_facts tools_example_malloc none)
  have gf: "Init_orbital tools_no_memory (0, pSPARC_gamma) = Inl Memory_allocation_failed"
    using Init_orbital_allocation [OF pSPARC_gamma_facts(1), of tools_no_memory 0]
    by (simp add: Let_def pSPARC_gamma_facts tools_no_memory_malloc)
  have h: "dmcomm (pSPARC_kpt\<lparr>elecgs_Count := 1\<rparr>) \<noteq> MPI_COMM_NULL"
    by (simp add: pSPARC_kpt_facts)
  have later: "Init_orbital tools_example (2, pSPARC_kpt\<lparr>elecgs_Count := 1\<rparr>)
       = Inr (2, pSPARC_kpt\<lparr>elecgs_Count := 1\<rparr>)"
    using Init_orbital_allocation [OF h, of tools_example 2] by (simp add: Let_def)
  show ?thesis
    using k kf g gf h later by (simp add: pSPARC_kpt_facts pSPARC_gamma_facts)
qed

end
